theory Spec2Isabelle
  imports Complex_Main "HOL-Library.Sublist"
begin

section \<open>Common data: Python values, HTTP errors\<close>

text \<open>
  The service is \<^verbatim>\<open>src/backend/app.py\<close>. Python \<^verbatim>\<open>str\<close> values are modelled as
  Isabelle strings over ASCII; \<^verbatim>\<open>time.time()\<close> (a float of seconds) is modelled as a
  real number, and a \<^verbatim>\<open>datetime\<close> as an integer count of seconds. Every clock reading
  and every answer of an external collaborator (password hasher, signing library,
  classifier, upstream HTTP service) is an argument of the function that uses it. The
  collections of the database are lists of documents in insertion order; a function that
  writes to one returns it as the request leaves it.
\<close>

type_synonym datetime = int

text \<open>Python exceptions that are not \<^verbatim>\<open>HTTPException\<close>; \<open>str_exc\<close> is \<^verbatim>\<open>str(e)\<close>.\<close>

datatype py_exception =
    KeyError string
  | IndexError string
  | AttributeError string
  | TypeError string
  | JSONDecodeError string
  | ExternalError string

fun str_exc :: "py_exception \<Rightarrow> string" where
  "str_exc (KeyError k) = [CHR 0x27] @ k @ [CHR 0x27]"
| "str_exc (IndexError m) = m"
| "str_exc (AttributeError m) = m"
| "str_exc (TypeError m) = m"
| "str_exc (JSONDecodeError m) = m"
| "str_exc (ExternalError m) = m"

text \<open>
  \<^verbatim>\<open>HTTPException(status_code, detail, headers)\<close>. A request that fails the validation of
  its body model is answered by the framework with status 422 and the list of the
  fields' errors.
\<close>

datatype field_error =
    EmailNotValid
  | NameTooShort
  | NameTooLong
  | PasswordTooShort
  | PasswordTooLong

datatype detail = Detail string | ValidationErrors "field_error list"

record http_exception =
  status_code :: nat
  detail :: detail
  headers :: "(string \<times> string) list"

definition HTTPException :: "nat \<Rightarrow> string \<Rightarrow> http_exception" where
  "HTTPException code msg = \<lparr>status_code = code, detail = Detail msg, headers = []\<rparr>"

definition HTTPException_bearer :: "nat \<Rightarrow> string \<Rightarrow> http_exception" where
  "HTTPException_bearer code msg =
     \<lparr>status_code = code, detail = Detail msg,
      headers = [(''WWW-Authenticate'', ''Bearer'')]\<rparr>"

subsection \<open>Python's \<^verbatim>\<open>int(x)\<close> on a float and \<^verbatim>\<open>str(n)\<close> on an int\<close>

definition py_int :: "real \<Rightarrow> int" where
  "py_int x = (if 0 \<le> x then \<lfloor>x\<rfloor> else \<lceil>x\<rceil>)"

definition digit_char :: "nat \<Rightarrow> char" where
  "digit_char d = ''0123456789'' ! d"

fun digits_of :: "nat \<Rightarrow> string" where
  "digits_of n = (if n < 10 then [digit_char n] else digits_of (n div 10) @ [digit_char (n mod 10)])"

declare digits_of.simps [simp del]

definition str_int :: "int \<Rightarrow> string" where
  "str_int i = (if i < 0 then ''-'' @ digits_of (nat (- i)) else digits_of (nat i))"

section \<open>Rate limiter\<close>

definition RATE_LIMIT_DURATION :: real where
  "RATE_LIMIT_DURATION = 60"

definition MAX_ATTEMPTS :: int where
  "MAX_ATTEMPTS = 5"

text \<open>\<^verbatim>\<open>login_attempts: Dict[str, Tuple[int, float]]\<close>, the process-wide table.\<close>

type_synonym attempts_table = "string \<rightharpoonup> (int \<times> real)"

definition too_many_detail :: "int \<Rightarrow> string" where
  "too_many_detail time_left =
     ''Too many login attempts. Please try again in '' @ str_int time_left @ '' seconds''"

text \<open>
  \<^verbatim>\<open>check_rate_limit(request)\<close>: \<open>client_ip\<close> is \<^verbatim>\<open>request.client.host\<close>, \<open>current_time\<close>
  the reading of \<^verbatim>\<open>time.time()\<close>. The result is the exception raised, if any, and the
  table as the call leaves it.
\<close>

definition check_rate_limit ::
  "string \<Rightarrow> real \<Rightarrow> attempts_table \<Rightarrow> (http_exception + unit) \<times> attempts_table" where
  "check_rate_limit client_ip current_time login_attempts =
     (case login_attempts client_ip of
        Some (attempts, first_attempt) \<Rightarrow>
          if current_time - first_attempt > RATE_LIMIT_DURATION
          then (Inr (), login_attempts(client_ip \<mapsto> (1, current_time)))
          else if attempts \<ge> MAX_ATTEMPTS
            then (let time_left = py_int (RATE_LIMIT_DURATION - (current_time - first_attempt))
                  in (Inl (HTTPException 429 (too_many_detail time_left)), login_attempts))
            else (Inr (), login_attempts(client_ip \<mapsto> (attempts + 1, first_attempt)))
      | None \<Rightarrow> (Inr (), login_attempts(client_ip \<mapsto> (1, current_time))))"

section \<open>Strings\<close>

text \<open>\<^verbatim>\<open>str.lower()\<close>, \<^verbatim>\<open>str.strip()\<close>, \<^verbatim>\<open>str.isdigit()\<close> and \<^verbatim>\<open>str.isupper()\<close> on ASCII.\<close>

definition lower_char :: "char \<Rightarrow> char" where
  "lower_char c =
     (if 65 \<le> (of_char c :: nat) \<and> (of_char c :: nat) \<le> 90
      then char_of ((of_char c :: nat) + 32) else c)"

definition lower :: "string \<Rightarrow> string" where
  "lower s = map lower_char s"

definition isspace :: "char \<Rightarrow> bool" where
  "isspace c =
     ((9 \<le> (of_char c :: nat) \<and> (of_char c :: nat) \<le> 13)
      \<or> (28 \<le> (of_char c :: nat) \<and> (of_char c :: nat) \<le> 32))"

definition strip :: "string \<Rightarrow> string" where
  "strip s = rev (dropWhile isspace (rev (dropWhile isspace s)))"

definition isdigit :: "char \<Rightarrow> bool" where
  "isdigit c = (48 \<le> (of_char c :: nat) \<and> (of_char c :: nat) \<le> 57)"

definition isupper :: "char \<Rightarrow> bool" where
  "isupper c = (65 \<le> (of_char c :: nat) \<and> (of_char c :: nat) \<le> 90)"

section \<open>Users and the credential store\<close>

text \<open>
  \<^verbatim>\<open>class User\<close> and the documents of \<^verbatim>\<open>db.users\<close>, which carry \<^verbatim>\<open>created_at\<close> as well.
  The collection is the list of its documents in insertion order; \<^verbatim>\<open>find_one\<close> answers
  the first document that matches.
\<close>

record user =
  email :: string
  name :: string
  hashed_password :: string

record user_doc = user +
  created_at :: datetime

type_synonym users_store = "user_doc list"

definition find_one_email :: "users_store \<Rightarrow> string \<Rightarrow> user_doc option" where
  "find_one_email users e = find (\<lambda>d. email d = e) users"

definition get_user :: "users_store \<Rightarrow> string \<Rightarrow> user option" where
  "get_user users e = map_option user.truncate (find_one_email users e)"

section \<open>Token service\<close>

text \<open>
  The claims of a token: a Python dict, every key of which may be absent.
\<close>

record claims =
  c_sub :: "string option"
  c_name :: "string option"
  c_iat :: "datetime option"
  c_type :: "string option"
  c_client_ip :: "string option"
  c_exp :: "datetime option"
  c_jti :: "string option"

text \<open>
  The signing library (\<^verbatim>\<open>jose.jwt\<close>) is outside the repository. A token is modelled
  symbolically: \<open>JWS k c\<close> is the claims \<open>c\<close> signed with the key \<open>k\<close>, \<open>Malformed s\<close> any
  string that is not a signed token. \<open>jwt_decode\<close> checks the signature against the key,
  then the expiry claim against the clock, as the library does with its default options.
\<close>

datatype token = JWS string claims | Malformed string


definition jwt_encode :: "claims \<Rightarrow> string \<Rightarrow> py_exception + token" where
  "jwt_encode to_encode key = Inr (JWS key to_encode)"


definition ACCESS_TOKEN_EXPIRE_MINUTES :: int where
  "ACCESS_TOKEN_EXPIRE_MINUTES = 30"

text \<open>
  The readings \<^verbatim>\<open>create_access_token\<close> takes from its environment: \<^verbatim>\<open>datetime.utcnow()\<close>
  twice, and the \<^verbatim>\<open>jti\<close> string built from \<^verbatim>\<open>time.time()\<close> and \<^verbatim>\<open>os.urandom(8)\<close>.
\<close>

record token_env =
  utcnow_exp :: datetime
  utcnow_iat :: datetime
  new_jti :: string

definition create_access_token :: "string \<Rightarrow> token_env \<Rightarrow> claims \<Rightarrow> http_exception + token" where
  "create_access_token SECRET_KEY env data =
     (let expire = utcnow_exp env + ACCESS_TOKEN_EXPIRE_MINUTES * 60;
          to_encode = data\<lparr>c_exp := Some expire, c_iat := Some (utcnow_iat env),
                           c_type := Some ''access'', c_jti := Some (new_jti env)\<rparr>
      in case jwt_encode to_encode SECRET_KEY of
           Inr encoded_jwt \<Rightarrow> Inr encoded_jwt
         | Inl e \<Rightarrow> Inl (HTTPException 500 ''Could not create access token''))"



section \<open>Login\<close>

record login_response =
  access_token :: token
  token_type :: string
  expires_in :: int
  user_email :: string
  user_name :: string

text \<open>
  The readings of one \<^verbatim>\<open>login\<close> request: \<^verbatim>\<open>time.time()\<close> inside \<^verbatim>\<open>check_rate_limit\<close>,
  \<^verbatim>\<open>time.time()\<close> in the default of \<^verbatim>\<open>login_attempts.get\<close>, \<^verbatim>\<open>datetime.utcnow()\<close> for the
  \<^verbatim>\<open>iat\<close> of \<^verbatim>\<open>data\<close>, and those of \<^verbatim>\<open>create_access_token\<close>.
\<close>

record login_env =
  time_check :: real
  time_fail :: real
  utcnow_data :: datetime
  tok_env :: token_env

text \<open>
  \<^verbatim>\<open>login(request, form_data)\<close>. \<open>pwd_verify\<close> is \<^verbatim>\<open>pwd_context.verify\<close>, which may raise;
  an exception that is not an \<^verbatim>\<open>HTTPException\<close> becomes status 500.
\<close>

definition login ::
  "string \<Rightarrow> (string \<Rightarrow> string \<Rightarrow> py_exception + bool) \<Rightarrow> users_store \<Rightarrow> login_env \<Rightarrow>
   string \<Rightarrow> string \<Rightarrow> string \<Rightarrow> attempts_table \<Rightarrow>
   (http_exception + login_response) \<times> attempts_table" where
  "login SECRET_KEY pwd_verify users env client_ip username password login_attempts =
     (case check_rate_limit client_ip (time_check env) login_attempts of
        (Inl e, tbl) \<Rightarrow> (Inl e, tbl)
      | (Inr _, tbl) \<Rightarrow>
          (let e = strip (lower username) in
           case get_user users e of
             None \<Rightarrow> (Inl (HTTPException_bearer 401 ''Email not registered''), tbl)
           | Some u \<Rightarrow>
               (case pwd_verify password (hashed_password u) of
                  Inl ex \<Rightarrow> (Inl (HTTPException 500 ''An error occurred during login''), tbl)
                | Inr False \<Rightarrow>
                    (let (current_attempts, first_attempt) =
                           (case tbl client_ip of Some p \<Rightarrow> p | None \<Rightarrow> (0, time_fail env))
                     in (Inl (HTTPException_bearer 401 ''Incorrect password''),
                         tbl(client_ip \<mapsto> (current_attempts + 1, first_attempt))))
                | Inr True \<Rightarrow>
                    (case create_access_token SECRET_KEY (tok_env env)
                            \<lparr>c_sub = Some (email u), c_name = Some (name u),
                             c_iat = Some (utcnow_data env), c_type = Some ''access'',
                             c_client_ip = Some client_ip, c_exp = None, c_jti = None\<rparr> of
                       Inl ex \<Rightarrow> (Inl ex, tbl)
                     | Inr tok \<Rightarrow>
                         (Inr \<lparr>access_token = tok, token_type = ''bearer'',
                               expires_in = ACCESS_TOKEN_EXPIRE_MINUTES * 60,
                               user_email = email u, user_name = name u\<rparr>,
                          tbl(client_ip := None))))))"

subsection \<open>A password hasher for the examples\<close>

text \<open>
  The hasher (\<^verbatim>\<open>pwd_context\<close>) is an argument of the model. The concrete instances of the
  theorems below use this one, which tags the plain text.
\<close>

definition example_hash :: "string \<Rightarrow> string" where
  "example_hash p = ''$2b$12$'' @ p"

definition example_verify :: "string \<Rightarrow> string \<Rightarrow> py_exception + bool" where
  "example_verify p h = Inr (h = example_hash p)"

definition example_users :: users_store where
  "example_users =
     [\<lparr>email = ''alice@example.com'', name = ''Alice'',
       hashed_password = example_hash ''Secret1'', created_at = 0\<rparr>]"

definition example_login_env :: "real \<Rightarrow> login_env" where
  "example_login_env t =
     \<lparr>time_check = t, time_fail = t, utcnow_data = 1000,
      tok_env = \<lparr>utcnow_exp = 1000, utcnow_iat = 1000, new_jti = ''1000_00ff00ff00ff00ff''\<rparr>\<rparr>"





section \<open>Registration\<close>

text \<open>
  \<^verbatim>\<open>class UserCreate\<close>: the body of a registration request once the framework has
  validated it. Its fields are \<^verbatim>\<open>email\<close>, \<^verbatim>\<open>name\<close> and \<^verbatim>\<open>password\<close>; they carry a prefix here
  because \<open>email\<close> and \<open>name\<close> are fields of \<open>user\<close> already.
\<close>

record user_create =
  uc_email :: string
  uc_name :: string
  uc_password :: string

text \<open>The JSON body as it arrives, before validation.\<close>

record register_body =
  body_email :: string
  body_name :: string
  body_password :: string

text \<open>
  The validation of the body against \<^verbatim>\<open>UserCreate\<close>: \<^verbatim>\<open>EmailStr\<close>, and the
  \<^verbatim>\<open>Field(..., min_length, max_length)\<close> bounds of \<^verbatim>\<open>name\<close> (2 to 50) and \<^verbatim>\<open>password\<close>
  (6 to 50). The email validator is a library; \<open>validate_email\<close> is its answer, the
  normalised address or nothing. The errors of all fields are collected.
\<close>

definition length_errors :: "nat \<Rightarrow> nat \<Rightarrow> field_error \<Rightarrow> field_error \<Rightarrow> string \<Rightarrow> field_error list" where
  "length_errors min_length max_length too_short too_long s =
     (if length s < min_length then [too_short]
      else if length s > max_length then [too_long] else [])"

definition validate_user_create ::
  "(string \<Rightarrow> string option) \<Rightarrow> register_body \<Rightarrow> field_error list + user_create" where
  "validate_user_create validate_email body =
     (let errors =
            (case validate_email (body_email body) of None \<Rightarrow> [EmailNotValid] | Some _ \<Rightarrow> [])
            @ length_errors 2 50 NameTooShort NameTooLong (body_name body)
            @ length_errors 6 50 PasswordTooShort PasswordTooLong (body_password body)
      in case (errors, validate_email (body_email body)) of
           ([], Some e) \<Rightarrow>
             Inr \<lparr>uc_email = e, uc_name = body_name body, uc_password = body_password body\<rparr>
         | _ \<Rightarrow> Inl errors)"

record register_response =
  message :: string
  response_email :: string

text \<open>
  The readings of one \<^verbatim>\<open>register\<close> request: \<^verbatim>\<open>datetime.utcnow()\<close>, and the exception
  \<^verbatim>\<open>db.users.insert_one\<close> raises, if it raises one.
\<close>

record register_env =
  reg_utcnow :: datetime
  insert_error :: "py_exception option"

text \<open>
  \<^verbatim>\<open>register(user: UserCreate)\<close>. \<open>get_password_hash\<close> is \<^verbatim>\<open>pwd_context.hash\<close>, which may
  raise. The result is the exception or the response, and the collection as the request
  leaves it.
\<close>

definition register ::
  "(string \<Rightarrow> py_exception + string) \<Rightarrow> register_env \<Rightarrow> user_create \<Rightarrow> users_store \<Rightarrow>
   (http_exception + register_response) \<times> users_store" where
  "register get_password_hash env user users =
     (if find_one_email users (lower (uc_email user)) \<noteq> None
      then (Inl (HTTPException 400 ''Email already registered''), users)
      else if \<not> list_ex isdigit (uc_password user)
      then (Inl (HTTPException 400 ''Password must contain at least one number''), users)
      else if \<not> list_ex isupper (uc_password user)
      then (Inl (HTTPException 400 ''Password must contain at least one uppercase letter''), users)
      else (case get_password_hash (uc_password user) of
              Inl ex \<Rightarrow>
                (Inl (HTTPException 500 ''An unexpected error occurred during registration''),
                 users)
            | Inr h \<Rightarrow>
                (let user_dict = \<lparr>email = lower (uc_email user), name = uc_name user,
                                  hashed_password = h, created_at = reg_utcnow env\<rparr>
                 in case insert_error env of
                      Some ex \<Rightarrow> (Inl (HTTPException 500 ''Failed to create user account''), users)
                    | None \<Rightarrow>
                        (Inr \<lparr>message = ''User created successfully'',
                              response_email = lower (uc_email user)\<rparr>,
                         users @ [user_dict]))))"

text \<open>
  The endpoint \<^verbatim>\<open>POST /api/auth/register\<close>: the framework validates the body and answers
  422 itself when that fails; only a valid body reaches \<^verbatim>\<open>register\<close>.
\<close>

definition post_register ::
  "(string \<Rightarrow> string option) \<Rightarrow> (string \<Rightarrow> py_exception + string) \<Rightarrow> register_env \<Rightarrow>
   register_body \<Rightarrow> users_store \<Rightarrow> (http_exception + register_response) \<times> users_store" where
  "post_register validate_email get_password_hash env body users =
     (case validate_user_create validate_email body of
        Inl errors \<Rightarrow>
          (Inl \<lparr>status_code = 422, detail = ValidationErrors errors, headers = []\<rparr>, users)
      | Inr user \<Rightarrow> register get_password_hash env user users)"


definition example_hasher :: "string \<Rightarrow> py_exception + string" where
  "example_hasher p = Inr (example_hash p)"

definition example_register_env :: register_env where
  "example_register_env = \<lparr>reg_utcnow = 0, insert_error = None\<rparr>"

definition example_bob :: user_create where
  "example_bob = \<lparr>uc_email = ''Bob@Example.com'', uc_name = ''Bob'', uc_password = ''Passw0rd''\<rparr>"



definition example_validate_email :: "string \<Rightarrow> string option" where
  "example_validate_email s = (if CHR ''@'' \<in> set s then Some s else None)"

definition example_short_body :: register_body where
  "example_short_body =
     \<lparr>body_email = ''alice@example.com'', body_name = ''Alice'', body_password = ''A1''\<rparr>"

section \<open>Videos\<close>

text \<open>
  The value a document of \<^verbatim>\<open>db.videos\<close> holds under \<^verbatim>\<open>savedAt\<close>: a date, where the
  ingester stored a \<^verbatim>\<open>datetime\<close>, or a string, where it stored \<^verbatim>\<open>datetime.isoformat()\<close>.
\<close>

datatype saved_at = Date datetime | IsoString string

text \<open>
  A document of \<^verbatim>\<open>db.videos\<close>. The field \<open>v_id\<close> is the key \<^verbatim>\<open>id\<close>. \<^verbatim>\<open>thumbnail\<close> may be
  \<^verbatim>\<open>None\<close>, and only the Instagram ingester stores \<^verbatim>\<open>originalUrl\<close>. The collection is the
  list of its documents in insertion order.
\<close>

record video =
  v_id :: string
  title :: string
  thumbnail :: "string option"
  platform :: string
  genre :: string
  savedAt :: saved_at
  watchStatus :: string
  userId :: string
  description :: string
  originalUrl :: "string option"

type_synonym videos_store = "video list"

section \<open>Genre classifier adapter\<close>

definition candidate_labels :: "string list" where
  "candidate_labels =
     [''Music and Entertainment'', ''Gaming and Esports'', ''Education and Learning'',
      ''Technology and Programming'', ''Lifestyle and Vlogs'', ''Sports and Fitness'',
      ''News and Politics'', ''Arts and Creativity'', ''Science and Nature'',
      ''Food and Cooking'']"

definition genre_mapping :: "(string \<times> string) list" where
  "genre_mapping =
     [(''Music and Entertainment'', ''music''), (''Gaming and Esports'', ''gaming''),
      (''Education and Learning'', ''education''),
      (''Technology and Programming'', ''technology''),
      (''Lifestyle and Vlogs'', ''lifestyle''), (''Sports and Fitness'', ''sports''),
      (''News and Politics'', ''news''), (''Arts and Creativity'', ''arts''),
      (''Science and Nature'', ''science''), (''Food and Cooking'', ''food'')]"

text \<open>
  The zero-shot classifier is an external model: given the text and the candidate labels
  it raises, or answers a result whose \<^verbatim>\<open>labels\<close> are ranked best first.
\<close>

record classifier_result =
  labels :: "string list"

type_synonym classifier = "string \<Rightarrow> string list \<Rightarrow> py_exception + classifier_result"

text \<open>The body of the \<^verbatim>\<open>try\<close> in \<^verbatim>\<open>classify_video_genre\<close>, and the function itself.\<close>

definition classify_try :: "classifier \<Rightarrow> string \<Rightarrow> string \<Rightarrow> py_exception + string" where
  "classify_try classifier title' description' =
     (let text_to_classify = title' @ ''. '' @ description' in
      case classifier text_to_classify candidate_labels of
        Inl ex \<Rightarrow> Inl ex
      | Inr result \<Rightarrow>
          (case labels result of
             [] \<Rightarrow> Inl (IndexError ''list index out of range'')
           | top_label # _ \<Rightarrow>
               Inr (case map_of genre_mapping top_label of
                      Some g \<Rightarrow> g
                    | None \<Rightarrow> ''other'')))"

definition classify_video_genre :: "classifier \<Rightarrow> string \<Rightarrow> string \<Rightarrow> string" where
  "classify_video_genre classifier title' description' =
     (case classify_try classifier title' description' of
        Inr g \<Rightarrow> g
      | Inl ex \<Rightarrow> ''other'')"

section \<open>String operations of the ingesters\<close>

text \<open>\<^verbatim>\<open>sub in s\<close> on strings.\<close>

fun py_in :: "string \<Rightarrow> string \<Rightarrow> bool" where
  "py_in sub [] = (sub = [])"
| "py_in sub (c # cs) = (prefix sub (c # cs) \<or> py_in sub cs)"

text \<open>
  \<^verbatim>\<open>s.split(sep)\<close> for a separator that is not empty: \<open>acc\<close> is the piece read so far, in
  reverse.
\<close>

function py_split_aux :: "string \<Rightarrow> string \<Rightarrow> string \<Rightarrow> string list" where
  "py_split_aux sep acc [] = [rev acc]"
| "py_split_aux sep acc (c # cs) =
     (if sep \<noteq> [] \<and> prefix sep (c # cs)
      then rev acc # py_split_aux sep [] (drop (length sep) (c # cs))
      else py_split_aux sep (c # acc) cs)"
  by pat_completeness auto
termination
  by (relation "measure (\<lambda>(sep, acc, s). length s)") (auto simp: neq_Nil_conv)

definition py_split :: "string \<Rightarrow> string \<Rightarrow> string list" where
  "py_split s sep = py_split_aux sep [] s"

text \<open>\<^verbatim>\<open>request.playlist_url.split("list=")[-1].split("&")[0]\<close>\<close>

definition playlist_id_of :: "string \<Rightarrow> string" where
  "playlist_id_of playlist_url = hd (py_split (last (py_split playlist_url ''list='')) ''&'')"

section \<open>Python dictionaries read from JSON\<close>

text \<open>
  The JSON an upstream service answers is modelled by its schema, every key of which may
  be absent: \<open>py_key k v\<close> is \<^verbatim>\<open>d[k]\<close>, which raises \<^verbatim>\<open>KeyError\<close> when the key is absent,
  and \<open>py_get v dflt\<close> is \<^verbatim>\<open>d.get(k, dflt)\<close>.
\<close>

definition py_key :: "string \<Rightarrow> 'a option \<Rightarrow> py_exception + 'a" where
  "py_key k v = (case v of None \<Rightarrow> Inl (KeyError k) | Some x \<Rightarrow> Inr x)"

definition py_get :: "'a option \<Rightarrow> 'a \<Rightarrow> 'a" where
  "py_get v dflt = (case v of None \<Rightarrow> dflt | Some x \<Rightarrow> x)"

text \<open>\<^verbatim>\<open>a or b\<close> on values that are a string or \<^verbatim>\<open>None\<close>.\<close>

definition truthy :: "string option \<Rightarrow> bool" where
  "truthy v = (case v of None \<Rightarrow> False | Some s \<Rightarrow> s \<noteq> [])"

definition py_or :: "string option \<Rightarrow> string option \<Rightarrow> string option" where
  "py_or a b = (if truthy a then a else b)"

text \<open>An exception that is not an \<^verbatim>\<open>HTTPException\<close>, at the boundary of a handler.\<close>

definition internal_error :: "string \<Rightarrow> py_exception \<Rightarrow> http_exception" where
  "internal_error msg ex = HTTPException 500 (msg @ str_exc ex)"

section \<open>YouTube ingester\<close>

text \<open>
  The answer of the playlist-items API. A thumbnail object is modelled by its \<^verbatim>\<open>url\<close>, the
  \<^verbatim>\<open>thumbnails\<close> object by the list of its entries.
\<close>

record yt_resource =
  videoId :: "string option"

record yt_snippet =
  snippet_resourceId :: "yt_resource option"
  snippet_title :: "string option"
  snippet_description :: "string option"
  snippet_thumbnails :: "(string \<times> string option) list option"

record yt_item =
  item_snippet :: "yt_snippet option"

record yt_data =
  data_items :: "yt_item list option"

record yt_response =
  yt_status_code :: int
  yt_json :: "py_exception + yt_data"

text \<open>The upstream call, by playlist id: it raises, or answers a response.\<close>

type_synonym yt_upstream = "string \<Rightarrow> py_exception + yt_response"

record yt_added =
  yt_message :: string
  yt_count :: nat
  yt_videos :: "video list"

text \<open>\<^verbatim>\<open>thumbnails.get(k, {}).get("url")\<close>\<close>

definition thumb_url :: "(string \<times> string option) list \<Rightarrow> string \<Rightarrow> string option" where
  "thumb_url thumbnails k = (case map_of thumbnails k of None \<Rightarrow> None | Some t \<Rightarrow> t)"

text \<open>The body of the loop over \<^verbatim>\<open>data["items"]\<close>: the video of one item.\<close>

definition youtube_video ::
  "classifier \<Rightarrow> datetime \<Rightarrow> string \<Rightarrow> yt_item \<Rightarrow> py_exception + video" where
  "youtube_video classifier current_time user_email' item =
     (case py_key ''snippet'' (item_snippet item) of
        Inl ex \<Rightarrow> Inl ex
      | Inr snippet \<Rightarrow>
     (case py_key ''resourceId'' (snippet_resourceId snippet) of
        Inl ex \<Rightarrow> Inl ex
      | Inr resource \<Rightarrow>
     (case py_key ''videoId'' (videoId resource) of
        Inl ex \<Rightarrow> Inl ex
      | Inr video_id \<Rightarrow>
     (case py_key ''title'' (snippet_title snippet) of
        Inl ex \<Rightarrow> Inl ex
      | Inr title' \<Rightarrow>
     (let description' = py_get (snippet_description snippet) '''';
          video_genre = classify_video_genre classifier title' description'
      in case py_key ''thumbnails'' (snippet_thumbnails snippet) of
           Inl ex \<Rightarrow> Inl ex
         | Inr thumbnails \<Rightarrow>
             (let thumbnail_url =
                    py_or (thumb_url thumbnails ''maxres'')
                      (py_or (thumb_url thumbnails ''high'')
                        (py_or (thumb_url thumbnails ''medium'')
                          (thumb_url thumbnails ''default'')))
              in Inr \<lparr>v_id = video_id, title = title', thumbnail = thumbnail_url,
                      platform = ''youtube'', genre = video_genre,
                      savedAt = Date current_time, watchStatus = ''unwatched'',
                      userId = user_email', description = description',
                      originalUrl = None\<rparr>))))))"

fun youtube_videos ::
  "classifier \<Rightarrow> datetime \<Rightarrow> string \<Rightarrow> yt_item list \<Rightarrow> py_exception + video list" where
  "youtube_videos classifier current_time user_email' [] = Inr []"
| "youtube_videos classifier current_time user_email' (item # items) =
     (case youtube_video classifier current_time user_email' item of
        Inl ex \<Rightarrow> Inl ex
      | Inr v \<Rightarrow>
          (case youtube_videos classifier current_time user_email' items of
             Inl ex \<Rightarrow> Inl ex
           | Inr videos \<Rightarrow> Inr (v # videos)))"

text \<open>
  \<^verbatim>\<open>add_youtube_playlist(request, current_user)\<close>. The result is the exception or the
  response, the collection as the request leaves it, and the playlist ids asked of the
  upstream API.
\<close>

definition add_youtube_playlist ::
  "classifier \<Rightarrow> yt_upstream \<Rightarrow> datetime \<Rightarrow> user \<Rightarrow> string \<Rightarrow> videos_store \<Rightarrow>
   (http_exception + yt_added) \<times> videos_store \<times> string list" where
  "add_youtube_playlist classifier upstream utcnow current_user playlist_url videos_db =
     (if \<not> py_in ''list='' playlist_url
      then (Inl (HTTPException 400 ''Invalid YouTube playlist URL''), videos_db, [])
      else
        (let playlist_id = playlist_id_of playlist_url in
         case upstream playlist_id of
           Inl ex \<Rightarrow> (Inl (internal_error ''An error occurred: '' ex), videos_db, [playlist_id])
         | Inr response \<Rightarrow>
             if yt_status_code response = 403
             then (Inl (HTTPException 403 ''YouTube API key is invalid or quota exceeded''),
                   videos_db, [playlist_id])
             else if yt_status_code response \<noteq> 200
             then (Inl (HTTPException 400
                         ''Failed to fetch playlist. Please check the URL and try again.''),
                   videos_db, [playlist_id])
             else
               (case yt_json response of
                  Inl ex \<Rightarrow>
                    (Inl (internal_error ''An error occurred: '' ex), videos_db, [playlist_id])
                | Inr data \<Rightarrow>
                    if py_get (data_items data) [] = []
                    then (Inl (HTTPException 404 ''No videos found in playlist''),
                          videos_db, [playlist_id])
                    else
                      (case youtube_videos classifier utcnow (email current_user)
                              (py_get (data_items data) []) of
                         Inl ex \<Rightarrow>
                           (Inl (internal_error ''An error occurred: '' ex), videos_db,
                            [playlist_id])
                       | Inr videos \<Rightarrow>
                           if videos \<noteq> []
                           then (Inr \<lparr>yt_message = ''Successfully added ''
                                         @ str_int (int (length videos))
                                         @ '' videos from playlist'',
                                       yt_count = length videos, yt_videos = videos\<rparr>,
                                 videos_db @ videos, [playlist_id])
                           else (Inl (HTTPException 404 ''No valid videos found in playlist''),
                                 videos_db, [playlist_id])))))"

section \<open>Instagram ingester\<close>

text \<open>
  Characters of \<^verbatim>\<open>[a-zA-Z0-9_-]\<close>, and the two regular expressions of the handler, written
  out. \<open>eat p s\<close> reads the literal \<open>p\<close> at the start of \<open>s\<close>, \<open>eat_opt p s\<close> reads it when
  it is there.
\<close>

definition idchar :: "char \<Rightarrow> bool" where
  "idchar c =
     ((97 \<le> (of_char c :: nat) \<and> (of_char c :: nat) \<le> 122)
      \<or> (65 \<le> (of_char c :: nat) \<and> (of_char c :: nat) \<le> 90)
      \<or> (48 \<le> (of_char c :: nat) \<and> (of_char c :: nat) \<le> 57)
      \<or> c = CHR ''_'' \<or> c = CHR ''-'')"

definition eat :: "string \<Rightarrow> string \<Rightarrow> string option" where
  "eat p s = (if prefix p s then Some (drop (length p) s) else None)"

definition eat_opt :: "string \<Rightarrow> string \<Rightarrow> string" where
  "eat_opt p s = (if prefix p s then drop (length p) s else s)"

definition eat_alt :: "string \<Rightarrow> string \<Rightarrow> string \<Rightarrow> string option" where
  "eat_alt p q s = (case eat p s of Some r \<Rightarrow> Some r | None \<Rightarrow> eat q s)"

text \<open>
  \<^verbatim>\<open>re.match(r'https?://(?:www\.)?instagram\.com/(?:reel|p)/[a-zA-Z0-9_-]+/?.*', url)\<close>
\<close>

definition re_match_instagram :: "string \<Rightarrow> bool" where
  "re_match_instagram url =
     (case eat ''http'' url of
        None \<Rightarrow> False
      | Some r1 \<Rightarrow>
     (case eat ''://'' (eat_opt ''s'' r1) of
        None \<Rightarrow> False
      | Some r2 \<Rightarrow>
     (case eat ''instagram.com/'' (eat_opt ''www.'' r2) of
        None \<Rightarrow> False
      | Some r3 \<Rightarrow>
     (case eat_alt ''reel'' ''p'' r3 of
        None \<Rightarrow> False
      | Some r4 \<Rightarrow>
     (case eat ''/'' r4 of
        None \<Rightarrow> False
      | Some r5 \<Rightarrow> takeWhile idchar r5 \<noteq> [])))))"

text \<open>
  \<^verbatim>\<open>re.search(r'/(?:reel|p)/([a-zA-Z0-9_-]+)/?', url)\<close>: group 1 of the leftmost match, or
  nothing when there is no match.
\<close>

definition re_group_at :: "string \<Rightarrow> string option" where
  "re_group_at s =
     (case eat_alt ''/reel/'' ''/p/'' s of
        None \<Rightarrow> None
      | Some r \<Rightarrow> if takeWhile idchar r = [] then None else Some (takeWhile idchar r))"

fun re_search_video_id :: "string \<Rightarrow> string option" where
  "re_search_video_id [] = None"
| "re_search_video_id (c # cs) =
     (case re_group_at (c # cs) of
        Some g \<Rightarrow> Some g
      | None \<Rightarrow> re_search_video_id cs)"

text \<open>The text of the exception \<^verbatim>\<open>.group(1)\<close> raises on \<^verbatim>\<open>None\<close>.\<close>

definition none_has_no_group :: string where
  "none_has_no_group =
     [CHR 0x27] @ ''NoneType'' @ [CHR 0x27] @ '' object has no attribute ''
     @ [CHR 0x27] @ ''group'' @ [CHR 0x27]"

text \<open>The answer of the media-lookup API.\<close>

record ig_data =
  ig_id :: "string option"
  ig_media_type :: "string option"
  ig_thumbnail_url :: "string option"
  ig_permalink :: "string option"
  ig_caption :: "string option"

record ig_response =
  ig_status_code :: int
  ig_json :: "py_exception + ig_data"

type_synonym ig_upstream = "string \<Rightarrow> py_exception + ig_response"

record ig_added =
  ig_message :: string
  ig_video_id :: string
  ig_video_title :: string
  ig_video_platform :: string
  ig_video_genre :: string

text \<open>
  What one request reads from its environment: the variable \<^verbatim>\<open>INSTAGRAM_ACCESS_TOKEN\<close>,
  \<^verbatim>\<open>datetime.utcnow()\<close>, and \<^verbatim>\<open>isoformat\<close>, the rendering of a \<^verbatim>\<open>datetime\<close> as a string.
\<close>

record ig_env =
  INSTAGRAM_ACCESS_TOKEN :: "string option"
  ig_utcnow :: datetime
  isoformat :: "datetime \<Rightarrow> string"

text \<open>
  The video document the handler builds from the answer; the keys \<^verbatim>\<open>id\<close> and \<^verbatim>\<open>permalink\<close>
  are read with \<^verbatim>\<open>data[...]\<close>.
\<close>

definition instagram_video ::
  "classifier \<Rightarrow> ig_env \<Rightarrow> string \<Rightarrow> ig_data \<Rightarrow> py_exception + video" where
  "instagram_video classifier env user_email' data =
     (let caption = py_get (ig_caption data) '''';
          video_genre = classify_video_genre classifier caption ''''
      in case py_key ''id'' (ig_id data) of
           Inl ex \<Rightarrow> Inl ex
         | Inr data_id \<Rightarrow>
             (case py_key ''permalink'' (ig_permalink data) of
                Inl ex \<Rightarrow> Inl ex
              | Inr permalink \<Rightarrow>
                  Inr \<lparr>v_id = data_id,
                       title = (if length caption > 100 then take 100 caption @ ''...''
                                else caption),
                       thumbnail = Some (py_get (ig_thumbnail_url data) ''''),
                       platform = ''instagram'', genre = video_genre,
                       savedAt = IsoString (isoformat env (ig_utcnow env)),
                       watchStatus = ''unwatched'', userId = user_email',
                       description = caption, originalUrl = Some permalink\<rparr>))"

text \<open>
  \<^verbatim>\<open>add_instagram_video(request, current_user)\<close>. The result is the exception or the
  response, the collection as the request leaves it, and the media ids asked of the
  upstream API.
\<close>

definition add_instagram_video ::
  "classifier \<Rightarrow> ig_upstream \<Rightarrow> ig_env \<Rightarrow> user \<Rightarrow> string \<Rightarrow> videos_store \<Rightarrow>
   (http_exception + ig_added) \<times> videos_store \<times> string list" where
  "add_instagram_video classifier upstream env current_user url videos_db =
     (if \<not> re_match_instagram url
      then (Inl (HTTPException 400 ''Invalid Instagram URL''), videos_db, [])
      else
        (case re_search_video_id url of
           None \<Rightarrow>
             (Inl (internal_error ''Failed to add Instagram video: ''
                     (AttributeError none_has_no_group)), videos_db, [])
         | Some video_id \<Rightarrow>
             if \<not> truthy (INSTAGRAM_ACCESS_TOKEN env)
             then (Inl (HTTPException 501
                         (''Instagram integration requires API setup. ''
                          @ ''Please configure INSTAGRAM_ACCESS_TOKEN in .env'')),
                   videos_db, [])
             else
               (case upstream video_id of
                  Inl ex \<Rightarrow>
                    (Inl (internal_error ''Failed to add Instagram video: '' ex), videos_db,
                     [video_id])
                | Inr response \<Rightarrow>
                    if ig_status_code response \<noteq> 200
                    then (Inl (HTTPException 400
                           ''Failed to fetch Instagram video. Please check the URL and try again.''),
                          videos_db, [video_id])
                    else
                      (case ig_json response of
                         Inl ex \<Rightarrow>
                           (Inl (internal_error ''Failed to add Instagram video: '' ex),
                            videos_db, [video_id])
                       | Inr data \<Rightarrow>
                           if ig_media_type data \<notin> {Some ''VIDEO'', Some ''REELS''}
                           then (Inl (HTTPException 400 ''URL must point to a video or reel''),
                                 videos_db, [video_id])
                           else
                             (case instagram_video classifier env (email current_user) data of
                                Inl ex \<Rightarrow>
                                  (Inl (internal_error ''Failed to add Instagram video: '' ex),
                                   videos_db, [video_id])
                              | Inr video \<Rightarrow>
                                  (Inr \<lparr>ig_message = ''Successfully added Instagram video'',
                                        ig_video_id = v_id video,
                                        ig_video_title = title video,
                                        ig_video_platform = ''instagram'',
                                        ig_video_genre = genre video\<rparr>,
                                   videos_db @ [video], [video_id]))))))"

section \<open>Video store: watch status\<close>

text \<open>
  \<^verbatim>\<open>db.videos.update_one({"id": video_id, "userId": email}, {"$set": {"watchStatus":
  status}})\<close>: the first document that matches the filter is the one updated. The result
  counts the documents matched and the documents modified; a document that holds the
  value already is matched and not modified.
\<close>

record update_result =
  matched_count :: nat
  modified_count :: nat

fun update_one ::
  "string \<Rightarrow> string \<Rightarrow> string \<Rightarrow> videos_store \<Rightarrow> update_result \<times> videos_store" where
  "update_one video_id user_email' status [] =
     (\<lparr>matched_count = 0, modified_count = 0\<rparr>, [])"
| "update_one video_id user_email' status (v # vs) =
     (if v_id v = video_id \<and> userId v = user_email'
      then (if watchStatus v = status
            then (\<lparr>matched_count = 1, modified_count = 0\<rparr>, v # vs)
            else (\<lparr>matched_count = 1, modified_count = 1\<rparr>,
                  v\<lparr>watchStatus := status\<rparr> # vs))
      else (case update_one video_id user_email' status vs of
              (result, vs') \<Rightarrow> (result, v # vs')))"

text \<open>\<^verbatim>\<open>update_watch_status(video_id, status, current_user)\<close>\<close>

definition update_watch_status ::
  "string \<Rightarrow> string \<Rightarrow> user \<Rightarrow> videos_store \<Rightarrow> (http_exception + string) \<times> videos_store" where
  "update_watch_status video_id status current_user videos_db =
     (if status \<notin> set [''watched'', ''unwatched'']
      then (Inl (HTTPException 400 ''Invalid watch status''), videos_db)
      else
        (case update_one video_id (email current_user) status videos_db of
           (result, videos_db') \<Rightarrow>
             if modified_count result = 0
             then (Inl (HTTPException 404 ''Video not found''), videos_db')
             else (Inr ''Watch status updated'', videos_db')))"

section \<open>Stale-video sweeper\<close>

text \<open>
  The query \<^verbatim>\<open>{"watchStatus": "unwatched", "savedAt": {"$lte": two_weeks_ago}}\<close>. The store
  compares a value with a date only when the value is a date itself: a string under
  \<^verbatim>\<open>savedAt\<close> does not satisfy \<^verbatim>\<open>$lte\<close> against a date.
\<close>

definition lte_date :: "saved_at \<Rightarrow> datetime \<Rightarrow> bool" where
  "lte_date v d = (case v of Date t \<Rightarrow> t \<le> d | IsoString s \<Rightarrow> False)"

definition find_unwatched :: "datetime \<Rightarrow> videos_store \<Rightarrow> video list" where
  "find_unwatched two_weeks_ago videos_db =
     filter (\<lambda>v. watchStatus v = ''unwatched'' \<and> lte_date (savedAt v) two_weeks_ago) videos_db"

definition days :: "int \<Rightarrow> int" where
  "days n = n * 86400"

text \<open>
  \<^verbatim>\<open>send_notification(user_email, video_title)\<close> prints and does nothing else; the model
  records the pair.
\<close>

definition send_notification :: "string \<Rightarrow> string \<Rightarrow> string \<times> string" where
  "send_notification user_email' video_title = (user_email', video_title)"

text \<open>
  One iteration of the loop of \<^verbatim>\<open>check_unwatched_videos\<close>, at the clock reading \<open>utcnow\<close>,
  and the loop itself over the clock reading and the collection of each of its
  iterations. The loop of the source has no exit; the list bounds the iterations
  observed.
\<close>

definition sweep :: "datetime \<Rightarrow> videos_store \<Rightarrow> (string \<times> string) list" where
  "sweep utcnow videos_db =
     (let two_weeks_ago = utcnow - days 14;
          unwatched_videos = find_unwatched two_weeks_ago videos_db
      in map (\<lambda>video. send_notification (userId video) (title video)) unwatched_videos)"

fun check_unwatched_videos :: "(datetime \<times> videos_store) list \<Rightarrow> (string \<times> string) list list" where
  "check_unwatched_videos [] = []"
| "check_unwatched_videos ((utcnow, videos_db) # rest) =
     sweep utcnow videos_db # check_unwatched_videos rest"

subsection \<open>Videos for the examples\<close>

definition example_video :: "string \<Rightarrow> string \<Rightarrow> string \<Rightarrow> video" where
  "example_video video_id owner status =
     \<lparr>v_id = video_id, title = ''A talk'', thumbnail = None, platform = ''youtube'',
      genre = ''education'', savedAt = Date 0, watchStatus = status, userId = owner,
      description = [], originalUrl = None\<rparr>"

definition example_alice :: user where
  "example_alice =
     \<lparr>email = ''alice@example.com'', name = ''Alice'',
      hashed_password = example_hash ''Secret1''\<rparr>"

text \<open>The genres a video can carry: the ten of \<open>genre_mapping\<close>, and the fallback.\<close>

definition genres :: "string list" where
  "genres = map snd genre_mapping @ [''other'']"

definition failing_classifier :: classifier where
  "failing_classifier text_to_classify ls = Inl (ExternalError ''model not loaded'')"

definition gaming_classifier :: classifier where
  "gaming_classifier text_to_classify ls =
     Inr \<lparr>labels = [''Gaming and Esports'', ''Music and Entertainment'']\<rparr>"

definition empty_classifier :: classifier where
  "empty_classifier text_to_classify ls = Inr \<lparr>labels = []\<rparr>"

definition unknown_classifier :: classifier where
  "unknown_classifier text_to_classify ls = Inr \<lparr>labels = [''Cats'', ''Gaming and Esports'']\<rparr>"

definition example_item :: yt_item where
  "example_item =
     \<lparr>item_snippet = Some
        \<lparr>snippet_resourceId = Some \<lparr>videoId = Some ''dQw4w9WgXcQ''\<rparr>,
         snippet_title = Some ''Speedrun'',
         snippet_description = Some ''any percent'',
         snippet_thumbnails = Some [(''default'', Some ''https://i.ytimg.com/d.jpg''),
                                    (''high'', Some ''https://i.ytimg.com/h.jpg'')]\<rparr>\<rparr>"

definition example_yt_upstream :: "int \<Rightarrow> yt_item list option \<Rightarrow> yt_upstream" where
  "example_yt_upstream code items playlist_id =
     Inr \<lparr>yt_status_code = code, yt_json = Inr \<lparr>data_items = items\<rparr>\<rparr>"

definition example_playlist_url :: string where
  "example_playlist_url = ''https://www.youtube.com/playlist?list=PL123&index=2''"

text \<open>
  A stand-in for \<^verbatim>\<open>isoformat\<close> in the examples: the seconds since the epoch in decimal
  after the letter \<^verbatim>\<open>T\<close>. The theorems hold for every rendering.
\<close>

definition example_isoformat :: "datetime \<Rightarrow> string" where
  "example_isoformat t = ''T'' @ str_int t"

definition example_ig_env :: "datetime \<Rightarrow> ig_env" where
  "example_ig_env t =
     \<lparr>INSTAGRAM_ACCESS_TOKEN = Some ''IGQVJ'', ig_utcnow = t, isoformat = example_isoformat\<rparr>"

definition example_ig_upstream :: ig_upstream where
  "example_ig_upstream media_id =
     Inr \<lparr>ig_status_code = 200,
          ig_json = Inr \<lparr>ig_id = Some ''17895695668004550'', ig_media_type = Some ''REELS'',
                          ig_thumbnail_url = Some ''https://scontent.cdninstagram.com/t.jpg'',
                          ig_permalink = Some ''https://www.instagram.com/reel/ABC123/'',
                          ig_caption = Some ''Morning run''\<rparr>\<rparr>"

definition example_reel_url :: string where
  "example_reel_url = ''https://instagram.com/reel/ABC123''"

definition example_reel_video :: video where
  "example_reel_video =
     \<lparr>v_id = ''17895695668004550'', title = ''Morning run'',
      thumbnail = Some ''https://scontent.cdninstagram.com/t.jpg'',
      platform = ''instagram'', genre = ''gaming'', savedAt = IsoString ''T0'',
      watchStatus = ''unwatched'', userId = ''alice@example.com'',
      description = ''Morning run'',
      originalUrl = Some ''https://www.instagram.com/reel/ABC123/''\<rparr>"

definition example_playlist_video :: video where
  "example_playlist_video =
     \<lparr>v_id = ''dQw4w9WgXcQ'', title = ''Speedrun'',
      thumbnail = Some ''https://i.ytimg.com/h.jpg'', platform = ''youtube'',
      genre = ''gaming'', savedAt = Date 0, watchStatus = ''unwatched'',
      userId = ''alice@example.com'', description = ''any percent'', originalUrl = None\<rparr>"


section \<open>Properties of the rate limiter\<close>

lemma digits_of_small: "n < 10 \<Longrightarrow> digits_of n = [digit_char n]"
  by (simp add: digits_of.simps)

lemma digits_of_large: "10 \<le> n \<Longrightarrow> digits_of n = digits_of (n div 10) @ [digit_char (n mod 10)]"
  by (subst digits_of.simps) simp

lemma digit_char_simps:
  "digit_char 0 = CHR ''0''" "digit_char 1 = CHR ''1''" "digit_char 2 = CHR ''2''"
  "digit_char 3 = CHR ''3''" "digit_char 4 = CHR ''4''" "digit_char 5 = CHR ''5''"
  "digit_char 6 = CHR ''6''" "digit_char 7 = CHR ''7''" "digit_char 8 = CHR ''8''"
  "digit_char 9 = CHR ''9''" "digit_char (Suc 0) = CHR ''1''"
  by (simp_all add: digit_char_def eval_nat_numeral)

lemma check_rate_limit_reject:
  assumes "tbl ip = Some (a, t0)" "MAX_ATTEMPTS \<le> a" "now - t0 \<le> RATE_LIMIT_DURATION"
  shows "check_rate_limit ip now tbl =
    (Inl (HTTPException 429 (too_many_detail (py_int (RATE_LIMIT_DURATION - (now - t0))))), tbl)"
  using assms by (simp add: check_rate_limit_def)

lemma check_rate_limit_reset:
  assumes "tbl ip = Some (a, t0)" "now - t0 > RATE_LIMIT_DURATION"
  shows "check_rate_limit ip now tbl = (Inr (), tbl(ip \<mapsto> (1, now)))"
  using assms by (simp add: check_rate_limit_def)

lemma check_rate_limit_first:
  assumes "tbl ip = None"
  shows "check_rate_limit ip now tbl = (Inr (), tbl(ip \<mapsto> (1, now)))"
  using assms by (auto simp add: check_rate_limit_def)

lemma check_rate_limit_incr:
  assumes "tbl ip = Some (a, t0)" "a < MAX_ATTEMPTS" "now - t0 \<le> RATE_LIMIT_DURATION"
  shows "check_rate_limit ip now tbl = (Inr (), tbl(ip \<mapsto> (a + 1, t0)))"
  using assms by (simp add: check_rate_limit_def)

lemma login_rate_limited:
  assumes "check_rate_limit ip (time_check env) tbl = (Inl e, tbl')"
  shows "login key vfy users env ip username password tbl = (Inl e, tbl')"
  using assms by (simp add: login_def)

text \<open>
  Claim C1. Let the address \<open>ip\<close> have no entry, or an entry whose window has run out at
  \<open>t1\<close>, and let five calls of the rate limiter at \<open>t1\<close>, ..., \<open>t5\<close> follow one another,
  each within 60 seconds of \<open>t1\<close>. All five are allowed and leave the entry \<open>(5, t1)\<close>.
  A sixth attempt at \<open>t6\<close>, still within 60 seconds of \<open>t1\<close>, is rejected with status 429
  and the message that gives the remaining seconds, by the rate limiter and so by
  \<^verbatim>\<open>login\<close>, and the table stays as it is. An attempt at \<open>t7\<close>, more than 60 seconds after
  \<open>t1\<close>, is allowed and resets the entry to \<open>(1, t7)\<close>.
\<close>

theorem rate_limit_sixth_attempt:
  fixes t1 t2 t3 t4 t5 t6 t7 :: real
  assumes fresh: "tbl ip = None \<or> (\<exists>a t0. tbl ip = Some (a, t0) \<and> t1 - t0 > RATE_LIMIT_DURATION)"
    and w2: "t2 - t1 \<le> RATE_LIMIT_DURATION" and w3: "t3 - t1 \<le> RATE_LIMIT_DURATION"
    and w4: "t4 - t1 \<le> RATE_LIMIT_DURATION" and w5: "t5 - t1 \<le> RATE_LIMIT_DURATION"
    and w6: "t6 - t1 \<le> RATE_LIMIT_DURATION" and w7: "t7 - t1 > RATE_LIMIT_DURATION"
    and r1: "check_rate_limit ip t1 tbl = (res1, tbl1)"
    and r2: "check_rate_limit ip t2 tbl1 = (res2, tbl2)"
    and r3: "check_rate_limit ip t3 tbl2 = (res3, tbl3)"
    and r4: "check_rate_limit ip t4 tbl3 = (res4, tbl4)"
    and r5: "check_rate_limit ip t5 tbl4 = (res5, tbl5)"
  shows "[res1, res2, res3, res4, res5] = [Inr (), Inr (), Inr (), Inr (), Inr ()]
    \<and> tbl5 = tbl(ip \<mapsto> (5, t1))
    \<and> check_rate_limit ip t6 tbl5 =
        (Inl (HTTPException 429 (too_many_detail (py_int (RATE_LIMIT_DURATION - (t6 - t1))))), tbl5)
    \<and> login key vfy users (env\<lparr>time_check := t6\<rparr>) ip username password tbl5 =
        (Inl (HTTPException 429 (too_many_detail (py_int (RATE_LIMIT_DURATION - (t6 - t1))))), tbl5)
    \<and> check_rate_limit ip t7 tbl5 = (Inr (), tbl5(ip \<mapsto> (1, t7)))"
proof -
  have s1: "res1 = Inr ()" "tbl1 = tbl(ip \<mapsto> (1, t1))"
    using fresh r1 by (auto simp: check_rate_limit_first check_rate_limit_reset)
  have s2: "res2 = Inr ()" "tbl2 = tbl(ip \<mapsto> (2, t1))"
    using r2 w2 check_rate_limit_incr[of tbl1 ip 1 t1 t2] by (auto simp: s1 MAX_ATTEMPTS_def)
  have s3: "res3 = Inr ()" "tbl3 = tbl(ip \<mapsto> (3, t1))"
    using r3 w3 check_rate_limit_incr[of tbl2 ip 2 t1 t3] by (auto simp: s2 MAX_ATTEMPTS_def)
  have s4: "res4 = Inr ()" "tbl4 = tbl(ip \<mapsto> (4, t1))"
    using r4 w4 check_rate_limit_incr[of tbl3 ip 3 t1 t4] by (auto simp: s3 MAX_ATTEMPTS_def)
  have s5: "res5 = Inr ()" "tbl5 = tbl(ip \<mapsto> (5, t1))"
    using r5 w5 check_rate_limit_incr[of tbl4 ip 4 t1 t5] by (auto simp: s4 MAX_ATTEMPTS_def)
  have e5: "tbl5 ip = Some (5, t1)" by (simp add: s5)
  have six: "check_rate_limit ip t6 tbl5 =
        (Inl (HTTPException 429 (too_many_detail (py_int (RATE_LIMIT_DURATION - (t6 - t1))))), tbl5)"
    using check_rate_limit_reject[of tbl5 ip 5 t1 t6] e5 w6 by (simp add: MAX_ATTEMPTS_def)
  have lg: "login key vfy users (env\<lparr>time_check := t6\<rparr>) ip username password tbl5 =
        (Inl (HTTPException 429 (too_many_detail (py_int (RATE_LIMIT_DURATION - (t6 - t1))))), tbl5)"
    by (rule login_rate_limited) (simp add: six)
  have seven: "check_rate_limit ip t7 tbl5 = (Inr (), tbl5(ip \<mapsto> (1, t7)))"
    using check_rate_limit_reset[of tbl5 ip 5 t1 t7] e5 w7 by simp
  show ?thesis using s1 s2 s3 s4 s5 six lg seven by simp
qed

theorem rate_limit_sixth_attempt_witness:
  "check_rate_limit ''10.0.0.1'' 50 (Map.empty(''10.0.0.1'' \<mapsto> (5, 0))) =
     (Inl (HTTPException 429 ''Too many login attempts. Please try again in 10 seconds''),
      Map.empty(''10.0.0.1'' \<mapsto> (5, 0)))
   \<and> check_rate_limit ''10.0.0.1'' 61 (Map.empty(''10.0.0.1'' \<mapsto> (5, 0))) =
     (Inr (), Map.empty(''10.0.0.1'' \<mapsto> (1, 61)))"
proof -
  let ?ip = "''10.0.0.1''"
  let ?t = "\<lambda>n::int. (Map.empty :: attempts_table)(?ip \<mapsto> (n, 0))"
  have fresh: "(Map.empty :: attempts_table) ?ip = None
      \<or> (\<exists>a t0. (Map.empty :: attempts_table) ?ip = Some (a, t0) \<and> 0 - t0 > RATE_LIMIT_DURATION)"
    by simp
  have r1: "check_rate_limit ?ip 0 Map.empty = (Inr (), ?t 1)"
    by (simp add: check_rate_limit_def)
  have r2: "check_rate_limit ?ip 10 (?t 1) = (Inr (), ?t 2)"
    by (simp add: check_rate_limit_def RATE_LIMIT_DURATION_def MAX_ATTEMPTS_def)
  have r3: "check_rate_limit ?ip 20 (?t 2) = (Inr (), ?t 3)"
    by (simp add: check_rate_limit_def RATE_LIMIT_DURATION_def MAX_ATTEMPTS_def)
  have r4: "check_rate_limit ?ip 30 (?t 3) = (Inr (), ?t 4)"
    by (simp add: check_rate_limit_def RATE_LIMIT_DURATION_def MAX_ATTEMPTS_def)
  have r5: "check_rate_limit ?ip 40 (?t 4) = (Inr (), ?t 5)"
    by (simp add: check_rate_limit_def RATE_LIMIT_DURATION_def MAX_ATTEMPTS_def)
  have msg: "too_many_detail (py_int 10) =
      ''Too many login attempts. Please try again in 10 seconds''"
    by (simp add: too_many_detail_def py_int_def str_int_def
        digits_of_small digits_of_large digit_char_simps)
  from rate_limit_sixth_attempt [of "Map.empty" ?ip 0 10 20 30 40 50 61, OF fresh _ _ _ _ _ _ r1 r2 r3 r4 r5]
  show ?thesis
    by (simp add: RATE_LIMIT_DURATION_def msg)
qed

section \<open>Properties of login\<close>

lemma strip_lower_alice: "strip (lower ''Alice@Example.com'') = ''alice@example.com''"
  by code_simp

lemma get_user_alice:
  "get_user example_users ''alice@example.com'' =
     Some \<lparr>email = ''alice@example.com'', name = ''Alice'',
           hashed_password = example_hash ''Secret1''\<rparr>"
  by (simp add: get_user_def find_one_email_def example_users_def user.truncate_def)

lemma login_incorrect_password:
  assumes "check_rate_limit ip (time_check env) tbl = (Inr (), tbl1)"
    and "get_user users (strip (lower un)) = Some u"
    and "V pw (hashed_password u) = Inr False"
  shows "login K V users env ip un pw tbl =
     (Inl (HTTPException_bearer 401 ''Incorrect password''),
      tbl1(ip \<mapsto> (case tbl1 ip of None \<Rightarrow> (1, time_fail env) | Some (a, t0) \<Rightarrow> (a + 1, t0))))"
  using assms by (simp add: login_def Let_def split: option.splits prod.splits)

lemma check_rate_limit_allowed:
  assumes "fst (check_rate_limit ip now tbl) = Inr ()"
  shows "check_rate_limit ip now tbl =
     (Inr (), tbl(ip \<mapsto>
        (case tbl ip of
           None \<Rightarrow> (1, now)
         | Some (a, t0) \<Rightarrow> if now - t0 > RATE_LIMIT_DURATION then (1, now) else (a + 1, t0))))"
  using assms by (auto simp: check_rate_limit_def Let_def split: option.splits if_splits)

lemma login_success_table:
  assumes "login K V users env ip un pw tbl = (Inr r, tbl')"
  shows "tbl' = tbl(ip := None)"
  using assms
  by (auto simp: login_def check_rate_limit_def Let_def create_access_token_def jwt_encode_def
      split: option.splits if_splits sum.splits bool.splits prod.splits)

text \<open>
  Claim C2, amended. A login request that passes the rate-limit check and fails the
  password verification leaves the entry of the address as follows: when the address had
  an entry \<open>(a, t0)\<close> whose window had not run out, \<open>(a + 2, t0)\<close>, the counter two higher
  and the window start unchanged; when it had no entry, or one whose window had run out,
  \<open>(2, now)\<close>, a new window. A login request that succeeds leaves the table without an
  entry for the address.
\<close>

theorem login_attempt_counter:
  assumes user: "get_user users (strip (lower un)) = Some u"
  shows "(V pw (hashed_password u) = Inr False
            \<and> fst (check_rate_limit ip (time_check env) tbl) = Inr () \<longrightarrow>
          login K V users env ip un pw tbl =
            (Inl (HTTPException_bearer 401 ''Incorrect password''),
             tbl(ip \<mapsto>
               (case tbl ip of
                  None \<Rightarrow> (2, time_check env)
                | Some (a, t0) \<Rightarrow>
                    if time_check env - t0 > RATE_LIMIT_DURATION
                    then (2, time_check env) else (a + 2, t0)))))
       \<and> (\<forall>r tbl'. login K V users env ip un pw tbl = (Inr r, tbl') \<longrightarrow> tbl' = tbl(ip := None))"
proof (intro conjI impI allI)
  assume a: "V pw (hashed_password u) = Inr False
            \<and> fst (check_rate_limit ip (time_check env) tbl) = Inr ()"
  let ?now = "time_check env"
  let ?tbl1 = "tbl(ip \<mapsto>
        (case tbl ip of
           None \<Rightarrow> (1, ?now)
         | Some (a, t0) \<Rightarrow> if ?now - t0 > RATE_LIMIT_DURATION then (1, ?now) else (a + 1, t0)))"
  have c: "check_rate_limit ip ?now tbl = (Inr (), ?tbl1)"
    using a check_rate_limit_allowed by blast
  show "login K V users env ip un pw tbl =
            (Inl (HTTPException_bearer 401 ''Incorrect password''),
             tbl(ip \<mapsto>
               (case tbl ip of
                  None \<Rightarrow> (2, time_check env)
                | Some (a, t0) \<Rightarrow>
                    if time_check env - t0 > RATE_LIMIT_DURATION
                    then (2, time_check env) else (a + 2, t0))))"
    using login_incorrect_password[of ip env tbl ?tbl1 users un u V pw K] c user a
    by (auto simp: add.commute split: option.splits prod.splits if_splits)
next
  fix r tbl'
  assume "login K V users env ip un pw tbl = (Inr r, tbl')"
  then show "tbl' = tbl(ip := None)" by (rule login_success_table)
qed

theorem login_attempt_counter_witness:
  "login ''k'' example_verify example_users (example_login_env 10) ''10.0.0.1''
       ''Alice@Example.com'' ''wrong'' (Map.empty(''10.0.0.1'' \<mapsto> (1, 0))) =
     (Inl (HTTPException_bearer 401 ''Incorrect password''),
      Map.empty(''10.0.0.1'' \<mapsto> (3, 0)))
   \<and> snd (login ''k'' example_verify example_users (example_login_env 10) ''10.0.0.1''
       ''Alice@Example.com'' ''Secret1'' (Map.empty(''10.0.0.1'' \<mapsto> (1, 0)))) = Map.empty"
proof -
  let ?tbl = "(Map.empty :: attempts_table)(''10.0.0.1'' \<mapsto> (1, 0))"
  have u: "get_user example_users (strip (lower ''Alice@Example.com'')) =
     Some \<lparr>email = ''alice@example.com'', name = ''Alice'',
           hashed_password = example_hash ''Secret1''\<rparr>"
    by (simp add: strip_lower_alice get_user_alice)
  have bad: "example_verify ''wrong''
      (hashed_password \<lparr>email = ''alice@example.com'', name = ''Alice'',
           hashed_password = example_hash ''Secret1''\<rparr>) = Inr False"
    by (simp add: example_verify_def example_hash_def)
  have pass: "fst (check_rate_limit ''10.0.0.1'' (time_check (example_login_env 10)) ?tbl) = Inr ()"
    by (simp add: check_rate_limit_def example_login_env_def RATE_LIMIT_DURATION_def MAX_ATTEMPTS_def)
  have ok: "\<exists>r t. login ''k'' example_verify example_users (example_login_env 10) ''10.0.0.1''
       ''Alice@Example.com'' ''Secret1'' ?tbl = (Inr r, t)"
    by (simp add: login_def u check_rate_limit_def example_login_env_def RATE_LIMIT_DURATION_def
        MAX_ATTEMPTS_def example_verify_def create_access_token_def jwt_encode_def)
  have fail: "login ''k'' example_verify example_users (example_login_env 10) ''10.0.0.1''
       ''Alice@Example.com'' ''wrong'' ?tbl =
     (Inl (HTTPException_bearer 401 ''Incorrect password''), Map.empty(''10.0.0.1'' \<mapsto> (3, 0)))"
    using login_attempt_counter [OF u, where V = example_verify and pw = "''wrong''"
        and ip = "''10.0.0.1''" and env = "example_login_env 10" and tbl = ?tbl and K = "''k''"]
      bad pass
    by (simp add: example_login_env_def RATE_LIMIT_DURATION_def)
  have del: "snd (login ''k'' example_verify example_users (example_login_env 10) ''10.0.0.1''
       ''Alice@Example.com'' ''Secret1'' ?tbl) = Map.empty"
    using login_attempt_counter [OF u, where V = example_verify and pw = "''Secret1''"
        and ip = "''10.0.0.1''" and env = "example_login_env 10" and tbl = ?tbl and K = "''k''"]
      ok
    by auto
  show ?thesis using fail del by simp
qed

text \<open>
  The claim as it stands fails where the window has run out: the entry \<open>(3, 0)\<close> becomes
  \<open>(2, 100)\<close> at a failed login at time 100, and not \<open>(5, 0)\<close>.
\<close>

theorem login_attempt_counter_counterexample:
  "fst (check_rate_limit ''10.0.0.1'' 100 (Map.empty(''10.0.0.1'' \<mapsto> (3, 0)))) = Inr ()
   \<and> fst (login ''k'' example_verify example_users (example_login_env 100) ''10.0.0.1''
       ''Alice@Example.com'' ''wrong'' (Map.empty(''10.0.0.1'' \<mapsto> (3, 0)))) =
       Inl (HTTPException_bearer 401 ''Incorrect password'')
   \<and> snd (login ''k'' example_verify example_users (example_login_env 100) ''10.0.0.1''
       ''Alice@Example.com'' ''wrong'' (Map.empty(''10.0.0.1'' \<mapsto> (3, 0)))) ''10.0.0.1'' =
       Some (2, 100)
   \<and> Some (2, 100) \<noteq> Some (3 + 2 :: int, 0 :: real)"
  by (simp add: login_def strip_lower_alice get_user_alice check_rate_limit_def
      example_login_env_def RATE_LIMIT_DURATION_def MAX_ATTEMPTS_def example_verify_def
      example_hash_def)

section \<open>Properties of registration\<close>











section \<open>Properties of the token service\<close>






lemma length_errors_empty:
  "length_errors lo hi a b s = [] \<longleftrightarrow> lo \<le> length s \<and> length s \<le> hi"
  by (auto simp: length_errors_def)

lemma validate_user_create_Inr:
  "validate_user_create validate_email body = Inr user \<longleftrightarrow>
     (\<exists>e. validate_email (body_email body) = Some e
        \<and> 2 \<le> length (body_name body) \<and> length (body_name body) \<le> 50
        \<and> 6 \<le> length (body_password body) \<and> length (body_password body) \<le> 50
        \<and> user = \<lparr>uc_email = e, uc_name = body_name body, uc_password = body_password body\<rparr>)"
  by (auto simp: validate_user_create_def Let_def length_errors_def
      split: option.splits list.splits if_splits)

lemma validate_user_create_Inl:
  "validate_user_create validate_email body = Inl errors \<Longrightarrow> errors \<noteq> []"
  by (auto simp: validate_user_create_def Let_def split: option.splits list.splits)

text \<open>
  Claim C10. A registration request whose password is shorter than 6 or longer than 50
  characters, whose name is shorter than 2 or longer than 50 characters, or whose email
  the validator does not accept, is answered with status 422 and a non-empty list of
  field errors, whatever the collection holds and whatever the password contains, and
  the collection stays as it is: the handler \<^verbatim>\<open>register\<close>, with its check for a duplicate
  email and for a digit and an uppercase letter, does not run. Every other request is
  handed to \<^verbatim>\<open>register\<close>.
\<close>

theorem register_body_bounds:
  "(length (body_password body) < 6 \<or> length (body_password body) > 50
      \<or> length (body_name body) < 2 \<or> length (body_name body) > 50
      \<or> validate_email (body_email body) = None \<longrightarrow>
    (\<exists>errors. errors \<noteq> []
       \<and> post_register validate_email H env body users =
           (Inl \<lparr>status_code = 422, detail = ValidationErrors errors, headers = []\<rparr>, users)))
   \<and> (6 \<le> length (body_password body) \<and> length (body_password body) \<le> 50
      \<and> 2 \<le> length (body_name body) \<and> length (body_name body) \<le> 50
      \<and> validate_email (body_email body) = Some e \<longrightarrow>
    post_register validate_email H env body users =
      register H env \<lparr>uc_email = e, uc_name = body_name body,
                       uc_password = body_password body\<rparr> users)"
proof (intro conjI impI)
  assume bad: "length (body_password body) < 6 \<or> length (body_password body) > 50
      \<or> length (body_name body) < 2 \<or> length (body_name body) > 50
      \<or> validate_email (body_email body) = None"
  show "\<exists>errors. errors \<noteq> []
       \<and> post_register validate_email H env body users =
           (Inl \<lparr>status_code = 422, detail = ValidationErrors errors, headers = []\<rparr>, users)"
  proof (cases "validate_user_create validate_email body")
    case (Inl errors)
    then show ?thesis
      using validate_user_create_Inl [OF Inl] by (simp add: post_register_def)
  next
    case (Inr user)
    then show ?thesis using bad by (auto simp: validate_user_create_Inr)
  qed
next
  assume ok: "6 \<le> length (body_password body) \<and> length (body_password body) \<le> 50
      \<and> 2 \<le> length (body_name body) \<and> length (body_name body) \<le> 50
      \<and> validate_email (body_email body) = Some e"
  then have "validate_user_create validate_email body =
      Inr \<lparr>uc_email = e, uc_name = body_name body, uc_password = body_password body\<rparr>"
    by (simp add: validate_user_create_Inr)
  then show "post_register validate_email H env body users =
      register H env \<lparr>uc_email = e, uc_name = body_name body,
                       uc_password = body_password body\<rparr> users"
    by (simp add: post_register_def)
qed

theorem register_body_bounds_witness:
  "post_register example_validate_email example_hasher example_register_env example_short_body
       example_users =
     (Inl \<lparr>status_code = 422, detail = ValidationErrors [PasswordTooShort], headers = []\<rparr>,
      example_users)
   \<and> post_register example_validate_email example_hasher example_register_env
       \<lparr>body_email = ''Bob@Example.com'', body_name = ''Bob'', body_password = ''Passw0rd''\<rparr>
       example_users =
     register example_hasher example_register_env example_bob example_users"
proof -
  have short: "length (body_password example_short_body) < 6"
    by (simp add: example_short_body_def)
  have v: "validate_user_create example_validate_email example_short_body = Inl [PasswordTooShort]"
    by (simp add: validate_user_create_def example_validate_email_def example_short_body_def
        length_errors_def)
  have a: "post_register example_validate_email example_hasher example_register_env
       example_short_body example_users =
     (Inl \<lparr>status_code = 422, detail = ValidationErrors [PasswordTooShort], headers = []\<rparr>,
      example_users)"
    using register_body_bounds [of example_short_body example_validate_email example_hasher
        example_register_env example_users] short
    by (auto simp: post_register_def v)
  have b: "post_register example_validate_email example_hasher example_register_env
       \<lparr>body_email = ''Bob@Example.com'', body_name = ''Bob'', body_password = ''Passw0rd''\<rparr>
       example_users =
     register example_hasher example_register_env example_bob example_users"
    using register_body_bounds [where body =
        "\<lparr>body_email = ''Bob@Example.com'', body_name = ''Bob'', body_password = ''Passw0rd''\<rparr>"
        and validate_email = example_validate_email and e = "''Bob@Example.com''"
        and H = example_hasher and env = example_register_env and users = example_users]
    by (simp add: example_validate_email_def example_bob_def)
  show ?thesis using a b by simp
qed

section \<open>Properties of the watch status update\<close>

lemma update_one_no_match:
  assumes "find (\<lambda>v. v_id v = vid \<and> userId v = e) db = None"
  shows "update_one vid e st db = (\<lparr>matched_count = 0, modified_count = 0\<rparr>, db)"
  using assms by (induction db) (auto split: if_splits)

lemma update_one_same:
  assumes "find (\<lambda>v. v_id v = vid \<and> userId v = e) db = Some v" and "watchStatus v = st"
  shows "update_one vid e st db = (\<lparr>matched_count = 1, modified_count = 0\<rparr>, db)"
  using assms by (induction db) (auto split: if_splits)

lemma update_one_changed:
  assumes "find (\<lambda>v. v_id v = vid \<and> userId v = e) db = Some v" and "watchStatus v \<noteq> st"
  shows "fst (update_one vid e st db) = \<lparr>matched_count = 1, modified_count = 1\<rparr>
       \<and> find (\<lambda>v. v_id v = vid \<and> userId v = e) (snd (update_one vid e st db)) =
           Some (v\<lparr>watchStatus := st\<rparr>)"
  using assms by (induction db) (auto split: if_splits prod.splits)

lemma update_one_length: "length (snd (update_one vid e st db)) = length db"
  by (induction db) (auto split: prod.splits)

lemma update_one_others:
  assumes "i < length db" and "v_id (db ! i) \<noteq> vid \<or> userId (db ! i) \<noteq> e"
  shows "snd (update_one vid e st db) ! i = db ! i"
  using assms
proof (induction db arbitrary: i)
  case Nil
  then show ?case by simp
next
  case (Cons v vs)
  show ?case
  proof (cases i)
    case 0
    with Cons.prems show ?thesis by (auto split: prod.splits)
  next
    case (Suc j)
    with Cons.prems Cons.IH [of j] show ?thesis by (auto split: prod.splits)
  qed
qed

lemma update_watch_status_store:
  "snd (update_watch_status vid st u db) = db
   \<or> snd (update_watch_status vid st u db) = snd (update_one vid (email u) st db)"
  by (auto simp: update_watch_status_def split: prod.splits)

lemma find_none_other_owner:
  assumes "\<forall>v \<in> set db. v_id v = vid \<longrightarrow> userId v \<noteq> e"
  shows "find (\<lambda>v. v_id v = vid \<and> userId v = e) db = None"
  using assms by (auto simp: find_None_iff)

text \<open>
  Claim C6. A status other than \<^verbatim>\<open>watched\<close> and \<^verbatim>\<open>unwatched\<close> is rejected with status 400
  and the collection is not touched. With a valid status, when every stored video of the
  id asked for belongs to another owner, the answer is 404 ``Video not found'' and the
  collection is as before. In every case the collection keeps its length, and every
  document whose id or owner differs from the pair asked for stays as it is: the update
  is scoped by the id and the owner together.
\<close>

theorem update_watch_status_scoped:
  "(status \<notin> {''watched'', ''unwatched''} \<longrightarrow>
      update_watch_status vid status u db =
        (Inl (HTTPException 400 ''Invalid watch status''), db))
   \<and> (status \<in> {''watched'', ''unwatched''}
        \<and> (\<forall>v \<in> set db. v_id v = vid \<longrightarrow> userId v \<noteq> email u) \<longrightarrow>
      update_watch_status vid status u db =
        (Inl (HTTPException 404 ''Video not found''), db))
   \<and> length (snd (update_watch_status vid status u db)) = length db
   \<and> (\<forall>i < length db. v_id (db ! i) \<noteq> vid \<or> userId (db ! i) \<noteq> email u \<longrightarrow>
        snd (update_watch_status vid status u db) ! i = db ! i)"
proof (intro conjI impI allI)
  assume "status \<notin> {''watched'', ''unwatched''}"
  then show "update_watch_status vid status u db =
        (Inl (HTTPException 400 ''Invalid watch status''), db)"
    by (simp add: update_watch_status_def)
next
  assume a: "status \<in> {''watched'', ''unwatched''}
        \<and> (\<forall>v \<in> set db. v_id v = vid \<longrightarrow> userId v \<noteq> email u)"
  then have "update_one vid (email u) status db =
      (\<lparr>matched_count = 0, modified_count = 0\<rparr>, db)"
    by (intro update_one_no_match find_none_other_owner) simp
  with a show "update_watch_status vid status u db =
        (Inl (HTTPException 404 ''Video not found''), db)"
    by (auto simp: update_watch_status_def)
next
  show "length (snd (update_watch_status vid status u db)) = length db"
    using update_watch_status_store [of vid status u db] by (auto simp: update_one_length)
next
  fix i
  assume "i < length db" and "v_id (db ! i) \<noteq> vid \<or> userId (db ! i) \<noteq> email u"
  then have "snd (update_one vid (email u) status db) ! i = db ! i"
    by (rule update_one_others)
  then show "snd (update_watch_status vid status u db) ! i = db ! i"
    using update_watch_status_store [of vid status u db] by auto
qed

theorem update_watch_status_scoped_witness:
  "update_watch_status ''abc'' ''seen'' example_alice
       [example_video ''abc'' ''bob@example.com'' ''unwatched''] =
     (Inl (HTTPException 400 ''Invalid watch status''),
      [example_video ''abc'' ''bob@example.com'' ''unwatched''])
   \<and> update_watch_status ''abc'' ''watched'' example_alice
       [example_video ''abc'' ''bob@example.com'' ''unwatched''] =
     (Inl (HTTPException 404 ''Video not found''),
      [example_video ''abc'' ''bob@example.com'' ''unwatched''])
   \<and> snd (update_watch_status ''abc'' ''watched'' example_alice
       [example_video ''abc'' ''bob@example.com'' ''unwatched'',
        example_video ''abc'' ''alice@example.com'' ''unwatched'']) ! 0 =
     example_video ''abc'' ''bob@example.com'' ''unwatched''"
proof -
  let ?bob = "example_video ''abc'' ''bob@example.com'' ''unwatched''"
  let ?ali = "example_video ''abc'' ''alice@example.com'' ''unwatched''"
  have other: "\<forall>v \<in> set [?bob]. v_id v = ''abc'' \<longrightarrow> userId v \<noteq> email example_alice"
    by (simp add: example_video_def example_alice_def)
  have a: "update_watch_status ''abc'' ''seen'' example_alice [?bob] =
     (Inl (HTTPException 400 ''Invalid watch status''), [?bob])"
    using update_watch_status_scoped [of "''seen''" "''abc''" example_alice "[?bob]"]
    by simp
  have b: "update_watch_status ''abc'' ''watched'' example_alice [?bob] =
     (Inl (HTTPException 404 ''Video not found''), [?bob])"
    using update_watch_status_scoped [of "''watched''" "''abc''" example_alice "[?bob]"] other
    by simp
  have c: "snd (update_watch_status ''abc'' ''watched'' example_alice [?bob, ?ali]) ! 0 = ?bob"
    using update_watch_status_scoped [of "''watched''" "''abc''" example_alice "[?bob, ?ali]"]
    by (simp add: example_video_def example_alice_def)
  show ?thesis using a b c by simp
qed

text \<open>
  Claim C7, amended. Let \<open>v\<close> be the first stored video with the id and the owner asked
  for, the document \<^verbatim>\<open>update_one\<close> matches, and let the valid status asked for be the
  one \<open>v\<close> holds. Then the document is matched and not modified, the answer is 404
  ``Video not found'', and the collection is as before. So a request that succeeded
  fails with 404 when it is sent again.
\<close>

theorem update_watch_status_unchanged_value:
  assumes first: "find (\<lambda>w. v_id w = vid \<and> userId w = email u) db = Some v"
    and valid: "status \<in> {''watched'', ''unwatched''}"
  shows "(watchStatus v = status \<longrightarrow>
           update_one vid (email u) status db =
             (\<lparr>matched_count = 1, modified_count = 0\<rparr>, db)
           \<and> update_watch_status vid status u db =
               (Inl (HTTPException 404 ''Video not found''), db))
       \<and> (watchStatus v \<noteq> status \<longrightarrow>
           fst (update_watch_status vid status u db) = Inr ''Watch status updated''
           \<and> update_watch_status vid status u (snd (update_watch_status vid status u db)) =
               (Inl (HTTPException 404 ''Video not found''),
                snd (update_watch_status vid status u db)))"
proof (intro conjI impI)
  assume same: "watchStatus v = status"
  show one: "update_one vid (email u) status db =
      (\<lparr>matched_count = 1, modified_count = 0\<rparr>, db)"
    using first same by (rule update_one_same)
  show "update_watch_status vid status u db =
      (Inl (HTTPException 404 ''Video not found''), db)"
    using valid by (auto simp: update_watch_status_def one)
next
  assume diff: "watchStatus v \<noteq> status"
  let ?db' = "snd (update_one vid (email u) status db)"
  have ch: "fst (update_one vid (email u) status db) = \<lparr>matched_count = 1, modified_count = 1\<rparr>"
    "find (\<lambda>w. v_id w = vid \<and> userId w = email u) ?db' = Some (v\<lparr>watchStatus := status\<rparr>)"
    using update_one_changed [OF first diff] by simp_all
  have r: "update_watch_status vid status u db = (Inr ''Watch status updated'', ?db')"
    using valid ch(1) by (auto simp: update_watch_status_def split: prod.splits)
  show "fst (update_watch_status vid status u db) = Inr ''Watch status updated''"
    by (simp add: r)
  have "update_one vid (email u) status ?db' =
      (\<lparr>matched_count = 1, modified_count = 0\<rparr>, ?db')"
    using ch(2) by (rule update_one_same) simp
  then have "update_watch_status vid status u ?db' =
      (Inl (HTTPException 404 ''Video not found''), ?db')"
    using valid by (auto simp: update_watch_status_def)
  then show "update_watch_status vid status u (snd (update_watch_status vid status u db)) =
      (Inl (HTTPException 404 ''Video not found''), snd (update_watch_status vid status u db))"
    by (simp add: r)
qed

theorem update_watch_status_unchanged_value_witness:
  "update_watch_status ''abc'' ''unwatched'' example_alice
       [example_video ''abc'' ''alice@example.com'' ''unwatched''] =
     (Inl (HTTPException 404 ''Video not found''),
      [example_video ''abc'' ''alice@example.com'' ''unwatched''])
   \<and> fst (update_watch_status ''abc'' ''watched'' example_alice
       [example_video ''abc'' ''alice@example.com'' ''unwatched'']) =
     Inr ''Watch status updated''"
proof -
  let ?ali = "example_video ''abc'' ''alice@example.com'' ''unwatched''"
  have first: "find (\<lambda>w. v_id w = ''abc'' \<and> userId w = email example_alice) [?ali] = Some ?ali"
    by (simp add: example_video_def example_alice_def)
  have st: "watchStatus ?ali = ''unwatched''"
    by (simp add: example_video_def)
  have a: "update_watch_status ''abc'' ''unwatched'' example_alice [?ali] =
     (Inl (HTTPException 404 ''Video not found''), [?ali])"
    using update_watch_status_unchanged_value [OF first, of "''unwatched''"] st by simp
  have b: "fst (update_watch_status ''abc'' ''watched'' example_alice [?ali]) =
     Inr ''Watch status updated''"
    using update_watch_status_unchanged_value [OF first, of "''watched''"] st by simp
  show ?thesis using a b by simp
qed

text \<open>
  The claim as it stands fails where the caller holds the id twice: the second document
  holds the status asked for, the first does not, and the request succeeds.
\<close>

theorem update_watch_status_unchanged_value_counterexample:
  "example_video ''abc'' ''alice@example.com'' ''watched''
     \<in> set [example_video ''abc'' ''alice@example.com'' ''unwatched'',
             example_video ''abc'' ''alice@example.com'' ''watched'']
   \<and> userId (example_video ''abc'' ''alice@example.com'' ''watched'') = email example_alice
   \<and> watchStatus (example_video ''abc'' ''alice@example.com'' ''watched'') = ''watched''
   \<and> update_watch_status ''abc'' ''watched'' example_alice
       [example_video ''abc'' ''alice@example.com'' ''unwatched'',
        example_video ''abc'' ''alice@example.com'' ''watched''] =
     (Inr ''Watch status updated'',
      [example_video ''abc'' ''alice@example.com'' ''watched'',
       example_video ''abc'' ''alice@example.com'' ''watched''])"
  by (simp add: update_watch_status_def example_video_def example_alice_def)

section \<open>Properties of the YouTube ingester\<close>

lemma example_urls:
  "py_in ''list='' example_playlist_url"
  "playlist_id_of example_playlist_url = ''PL123''"
  "\<not> py_in ''list='' ''https://youtu.be/dQw4w9WgXcQ''"
  "\<not> re_match_instagram ''https://example.com/reel/ABC123''"
  "re_match_instagram example_reel_url"
  "re_search_video_id example_reel_url = Some ''ABC123''"
  by code_simp+

text \<open>\<^verbatim>\<open>split\<close> answers at least one piece, so \<^verbatim>\<open>[-1]\<close> and \<^verbatim>\<open>[0]\<close> are defined.\<close>

lemma py_split_not_Nil: "py_split s sep \<noteq> []"
proof -
  have "py_split_aux sep' acc s' \<noteq> []" for sep' acc s'
    by (induction sep' acc s' rule: py_split_aux.induct) auto
  then show ?thesis by (simp add: py_split_def)
qed

lemma add_youtube_playlist_failure_store:
  assumes "fst (add_youtube_playlist c up now u url db) = Inl err"
  shows "fst (snd (add_youtube_playlist c up now u url db)) = db"
  using assms
  by (auto simp: add_youtube_playlist_def Let_def split: sum.splits if_splits)

text \<open>
  Claim C8. A playlist URL without \<^verbatim>\<open>list=\<close> is answered 400 ``Invalid YouTube playlist
  URL'' and nothing is asked of the upstream API. When the URL has \<^verbatim>\<open>list=\<close> and the
  upstream API answers: its status 403 gives 403; any other status that is not 200 gives
  400 ``Failed to fetch playlist''; status 200 with an empty or absent list of items
  gives 404 ``No videos found in playlist''. Whenever the request fails, with these or
  any other exception, the collection of videos is as before.
\<close>

theorem add_youtube_playlist_failures:
  "(\<not> py_in ''list='' url \<longrightarrow>
      add_youtube_playlist c up now u url db =
        (Inl (HTTPException 400 ''Invalid YouTube playlist URL''), db, []))
   \<and> (py_in ''list='' url \<and> up (playlist_id_of url) = Inr r \<and> yt_status_code r = 403 \<longrightarrow>
      add_youtube_playlist c up now u url db =
        (Inl (HTTPException 403 ''YouTube API key is invalid or quota exceeded''), db,
         [playlist_id_of url]))
   \<and> (py_in ''list='' url \<and> up (playlist_id_of url) = Inr r
        \<and> yt_status_code r \<noteq> 403 \<and> yt_status_code r \<noteq> 200 \<longrightarrow>
      add_youtube_playlist c up now u url db =
        (Inl (HTTPException 400
               ''Failed to fetch playlist. Please check the URL and try again.''), db,
         [playlist_id_of url]))
   \<and> (py_in ''list='' url \<and> up (playlist_id_of url) = Inr r \<and> yt_status_code r = 200
        \<and> yt_json r = Inr data \<and> data_items data \<in> {Some [], None} \<longrightarrow>
      add_youtube_playlist c up now u url db =
        (Inl (HTTPException 404 ''No videos found in playlist''), db, [playlist_id_of url]))
   \<and> (fst (add_youtube_playlist c up now u url db) = Inl err \<longrightarrow>
      fst (snd (add_youtube_playlist c up now u url db)) = db)"
proof (intro conjI impI)
  assume "fst (add_youtube_playlist c up now u url db) = Inl err"
  then show "fst (snd (add_youtube_playlist c up now u url db)) = db"
    by (rule add_youtube_playlist_failure_store)
qed (auto simp: add_youtube_playlist_def Let_def py_get_def)

theorem add_youtube_playlist_failures_witness:
  "add_youtube_playlist gaming_classifier (example_yt_upstream 200 (Some [example_item])) 0
       example_alice ''https://youtu.be/dQw4w9WgXcQ'' [] =
     (Inl (HTTPException 400 ''Invalid YouTube playlist URL''), [], [])
   \<and> add_youtube_playlist gaming_classifier (example_yt_upstream 403 None) 0
       example_alice example_playlist_url [] =
     (Inl (HTTPException 403 ''YouTube API key is invalid or quota exceeded''), [], [''PL123''])
   \<and> add_youtube_playlist gaming_classifier (example_yt_upstream 500 None) 0
       example_alice example_playlist_url [] =
     (Inl (HTTPException 400
            ''Failed to fetch playlist. Please check the URL and try again.''), [], [''PL123''])
   \<and> add_youtube_playlist gaming_classifier (example_yt_upstream 200 (Some [])) 0
       example_alice example_playlist_url [] =
     (Inl (HTTPException 404 ''No videos found in playlist''), [], [''PL123''])
   \<and> fst (snd (add_youtube_playlist gaming_classifier (example_yt_upstream 200 (Some [])) 0
       example_alice example_playlist_url [example_video ''abc'' ''bob@example.com'' ''watched''])) =
     [example_video ''abc'' ''bob@example.com'' ''watched'']"
proof -
  note th = add_youtube_playlist_failures [where c = gaming_classifier and now = 0
      and u = example_alice]
  have a: "add_youtube_playlist gaming_classifier (example_yt_upstream 200 (Some [example_item])) 0
       example_alice ''https://youtu.be/dQw4w9WgXcQ'' [] =
     (Inl (HTTPException 400 ''Invalid YouTube playlist URL''), [], [])"
    using th [where url = "''https://youtu.be/dQw4w9WgXcQ''"
        and up = "example_yt_upstream 200 (Some [example_item])" and db = "[]"]
      example_urls(3)
    by simp
  have b: "add_youtube_playlist gaming_classifier (example_yt_upstream 403 None) 0
       example_alice example_playlist_url [] =
     (Inl (HTTPException 403 ''YouTube API key is invalid or quota exceeded''), [], [''PL123''])"
    using th [where url = example_playlist_url and up = "example_yt_upstream 403 None"
        and db = "[]"
        and r = "\<lparr>yt_status_code = 403, yt_json = Inr \<lparr>data_items = None\<rparr>\<rparr>"]
      example_urls(1)
    by (simp add: example_urls(2) example_yt_upstream_def)
  have c: "add_youtube_playlist gaming_classifier (example_yt_upstream 500 None) 0
       example_alice example_playlist_url [] =
     (Inl (HTTPException 400
            ''Failed to fetch playlist. Please check the URL and try again.''), [], [''PL123''])"
    using th [where url = example_playlist_url and up = "example_yt_upstream 500 None"
        and db = "[]"
        and r = "\<lparr>yt_status_code = 500, yt_json = Inr \<lparr>data_items = None\<rparr>\<rparr>"]
      example_urls(1)
    by (simp add: example_urls(2) example_yt_upstream_def)
  have d: "add_youtube_playlist gaming_classifier (example_yt_upstream 200 (Some [])) 0
       example_alice example_playlist_url db =
     (Inl (HTTPException 404 ''No videos found in playlist''), db, [''PL123''])" for db
    using th [where url = example_playlist_url and up = "example_yt_upstream 200 (Some [])"
        and db = db
        and r = "\<lparr>yt_status_code = 200, yt_json = Inr \<lparr>data_items = Some []\<rparr>\<rparr>"
        and data = "\<lparr>data_items = Some []\<rparr>"]
      example_urls(1)
    by (simp add: example_urls(2) example_yt_upstream_def)
  have e: "fst (snd (add_youtube_playlist gaming_classifier (example_yt_upstream 200 (Some [])) 0
       example_alice example_playlist_url [example_video ''abc'' ''bob@example.com'' ''watched''])) =
     [example_video ''abc'' ''bob@example.com'' ''watched'']"
    using th [where url = example_playlist_url and up = "example_yt_upstream 200 (Some [])"
        and db = "[example_video ''abc'' ''bob@example.com'' ''watched'']"
        and err = "HTTPException 404 ''No videos found in playlist''"]
    by (simp add: d)
  show ?thesis using a b c d [of "[]"] e by simp
qed

section \<open>Properties of the genre classifier adapter\<close>

lemma map_of_genre_mapping:
  "map_of genre_mapping l = Some g \<Longrightarrow> g \<in> set (map snd genre_mapping)"
  by (metis map_of_SomeD set_zip_rightD zip_map_fst_snd)

lemma classify_video_genre_range:
  "classify_video_genre classifier t d \<in> set genres"
  using map_of_genre_mapping
  by (auto simp: classify_video_genre_def classify_try_def genres_def Let_def
      split: sum.splits list.splits option.splits)

text \<open>The classifier decides the genre of a video and nothing else of an ingestion.\<close>

lemma youtube_video_classifier:
  "youtube_video c now e item = Inl ex \<Longrightarrow> youtube_video c' now e item = Inl ex"
  "youtube_video c now e item = Inr v \<Longrightarrow> \<exists>v'. youtube_video c' now e item = Inr v'"
  by (auto simp: youtube_video_def py_key_def Let_def split: option.splits)

lemma youtube_videos_classifier:
  "(youtube_videos c now e items = Inl ex \<longrightarrow> youtube_videos c' now e items = Inl ex)
   \<and> (youtube_videos c now e items = Inr vs \<longrightarrow>
        (\<exists>vs'. youtube_videos c' now e items = Inr vs' \<and> length vs' = length vs))"
proof (induction items arbitrary: ex vs)
  case Nil
  show ?case by auto
next
  case (Cons item items)
  show ?case
  proof (cases "youtube_video c now e item")
    case (Inl a)
    then have "youtube_video c' now e item = Inl a"
      by (rule youtube_video_classifier)
    with Inl show ?thesis by simp
  next
    case (Inr v)
    then obtain v' where v': "youtube_video c' now e item = Inr v'"
      using youtube_video_classifier(2) by blast
    show ?thesis
    proof (cases "youtube_videos c now e items")
      case (Inl a)
      then have "youtube_videos c' now e items = Inl a"
        using Cons.IH by blast
      with Inl Inr v' show ?thesis by simp
    next
      case r: (Inr ws)
      then obtain ws' where ws': "youtube_videos c' now e items = Inr ws'" "length ws' = length ws"
        using Cons.IH by blast
      with r Inr v' show ?thesis by auto
    qed
  qed
qed

lemma add_youtube_playlist_classifier:
  assumes "fst (add_youtube_playlist c up now u url db) = Inl err"
  shows "fst (add_youtube_playlist c' up now u url db) = Inl err"
proof -
  let ?items = "py_get (data_items (projr (yt_json (projr (up (playlist_id_of url)))))) []"
  show ?thesis
  proof (cases "youtube_videos c now (email u) ?items")
    case (Inl a)
    then have "youtube_videos c' now (email u) ?items = Inl a"
      using youtube_videos_classifier by blast
    with Inl assms show ?thesis
      by (auto simp: add_youtube_playlist_def Let_def split: sum.splits if_splits)
  next
    case (Inr vs)
    then obtain vs' where "youtube_videos c' now (email u) ?items = Inr vs'" "length vs' = length vs"
      using youtube_videos_classifier by blast
    with Inr assms show ?thesis
      by (auto simp: add_youtube_playlist_def Let_def split: sum.splits if_splits)
  qed
qed

lemma instagram_video_classifier:
  "instagram_video c env e data = Inl ex \<Longrightarrow> instagram_video c' env e data = Inl ex"
  "instagram_video c env e data = Inr v \<Longrightarrow> \<exists>v'. instagram_video c' env e data = Inr v'"
  by (auto simp: instagram_video_def py_key_def Let_def split: option.splits)

lemma add_instagram_video_classifier:
  assumes "fst (add_instagram_video c up env u url db) = Inl err"
  shows "fst (add_instagram_video c' up env u url db) = Inl err"
proof -
  let ?data = "projr (ig_json (projr (up (the (re_search_video_id url)))))"
  show ?thesis
  proof (cases "instagram_video c env (email u) ?data")
    case (Inl a)
    then have "instagram_video c' env (email u) ?data = Inl a"
      by (rule instagram_video_classifier)
    with Inl assms show ?thesis
      by (auto simp: add_instagram_video_def Let_def split: sum.splits if_splits option.splits)
  next
    case (Inr v)
    then obtain v' where "instagram_video c' env (email u) ?data = Inr v'"
      using instagram_video_classifier(2) by blast
    with Inr assms show ?thesis
      by (auto simp: add_instagram_video_def Let_def split: sum.splits if_splits option.splits)
  qed
qed

lemma classify_video_genre_other:
  "classifier (t @ ''. '' @ d) candidate_labels = Inl ex \<Longrightarrow>
     classify_video_genre classifier t d = ''other''"
  "classifier (t @ ''. '' @ d) candidate_labels = Inr result \<Longrightarrow> labels result = [] \<Longrightarrow>
     classify_video_genre classifier t d = ''other''"
  "classifier (t @ ''. '' @ d) candidate_labels = Inr result \<Longrightarrow> labels result = l # ls \<Longrightarrow>
     l \<notin> fst ` set genre_mapping \<Longrightarrow> classify_video_genre classifier t d = ''other''"
  by (auto simp: classify_video_genre_def classify_try_def Let_def
      split: option.splits dest: map_of_SomeD intro: rev_image_eqI)

text \<open>
  Claim C9. For every title and description the adapter returns one of the eleven
  genres. When the classifier raises, when it answers no label, and when its top label
  is not in the mapping, the adapter returns \<^verbatim>\<open>other\<close>. It has no exception to hand to its
  caller: an ingestion that fails with one classifier fails with the same exception with
  any other, so no failure of an ingestion comes from the classifier.
\<close>

theorem classify_video_genre_fallback:
  "classify_video_genre classifier t d \<in> set genres
   \<and> (classifier (t @ ''. '' @ d) candidate_labels = Inl ex \<longrightarrow>
        classify_video_genre classifier t d = ''other'')
   \<and> (classifier (t @ ''. '' @ d) candidate_labels = Inr result \<and> labels result = [] \<longrightarrow>
        classify_video_genre classifier t d = ''other'')
   \<and> (classifier (t @ ''. '' @ d) candidate_labels = Inr result' \<and> labels result' = l # ls
        \<and> l \<notin> fst ` set genre_mapping \<longrightarrow>
        classify_video_genre classifier t d = ''other'')
   \<and> (fst (add_youtube_playlist classifier yt now u playlist_url db) = Inl err \<longrightarrow>
        fst (add_youtube_playlist classifier' yt now u playlist_url db) = Inl err)
   \<and> (fst (add_instagram_video classifier ig env u url db) = Inl err' \<longrightarrow>
        fst (add_instagram_video classifier' ig env u url db) = Inl err')"
  using classify_video_genre_range [of classifier t d]
    classify_video_genre_other [of classifier t d]
    add_youtube_playlist_classifier [of classifier yt now u playlist_url db err classifier']
    add_instagram_video_classifier [of classifier ig env u url db err' classifier']
  by blast

theorem classify_video_genre_fallback_witness:
  "classify_video_genre failing_classifier ''Speedrun'' ''any percent'' = ''other''
   \<and> classify_video_genre empty_classifier ''Speedrun'' ''any percent'' = ''other''
   \<and> classify_video_genre unknown_classifier ''Speedrun'' ''any percent'' = ''other''
   \<and> fst (add_youtube_playlist failing_classifier
          (example_yt_upstream 200 (Some [example_item])) 0 example_alice
          ''https://youtu.be/dQw4w9WgXcQ'' []) =
       Inl (HTTPException 400 ''Invalid YouTube playlist URL'')
   \<and> fst (add_instagram_video failing_classifier example_ig_upstream (example_ig_env 0)
          example_alice ''https://example.com/reel/ABC123'' []) =
       Inl (HTTPException 400 ''Invalid Instagram URL'')
   \<and> map genre (fst (snd (add_youtube_playlist failing_classifier
          (example_yt_upstream 200 (Some [example_item])) 0 example_alice
          example_playlist_url []))) = [''other'']"
proof -
  note th = classify_video_genre_fallback [where t = "''Speedrun''" and d = "''any percent''"]
  have a: "classify_video_genre failing_classifier ''Speedrun'' ''any percent'' = ''other''"
    using th [where classifier = failing_classifier
        and ex = "ExternalError ''model not loaded''"]
    by (simp add: failing_classifier_def)
  have b: "classify_video_genre empty_classifier ''Speedrun'' ''any percent'' = ''other''"
    using th [where classifier = empty_classifier and result = "\<lparr>labels = []\<rparr>"]
    by (simp add: empty_classifier_def)
  have "''Cats'' \<notin> fst ` set genre_mapping"
    by (simp add: genre_mapping_def)
  then have c: "classify_video_genre unknown_classifier ''Speedrun'' ''any percent'' = ''other''"
    using th [where classifier = unknown_classifier
        and result' = "\<lparr>labels = [''Cats'', ''Gaming and Esports'']\<rparr>"
        and l = "''Cats''" and ls = "[''Gaming and Esports'']"]
    by (simp add: unknown_classifier_def)
  have "fst (add_youtube_playlist gaming_classifier
          (example_yt_upstream 200 (Some [example_item])) 0 example_alice
          ''https://youtu.be/dQw4w9WgXcQ'' []) =
       Inl (HTTPException 400 ''Invalid YouTube playlist URL'')"
    by (simp add: add_youtube_playlist_def example_urls)
  then have d: "fst (add_youtube_playlist failing_classifier
          (example_yt_upstream 200 (Some [example_item])) 0 example_alice
          ''https://youtu.be/dQw4w9WgXcQ'' []) =
       Inl (HTTPException 400 ''Invalid YouTube playlist URL'')"
    using th [where classifier = gaming_classifier and classifier' = failing_classifier
        and yt = "example_yt_upstream 200 (Some [example_item])" and now = 0
        and u = example_alice and playlist_url = "''https://youtu.be/dQw4w9WgXcQ''"
        and db = "[]" and err = "HTTPException 400 ''Invalid YouTube playlist URL''"]
    by simp
  have "fst (add_instagram_video gaming_classifier example_ig_upstream (example_ig_env 0)
          example_alice ''https://example.com/reel/ABC123'' []) =
       Inl (HTTPException 400 ''Invalid Instagram URL'')"
    by (simp add: add_instagram_video_def example_urls)
  then have e: "fst (add_instagram_video failing_classifier example_ig_upstream (example_ig_env 0)
          example_alice ''https://example.com/reel/ABC123'' []) =
       Inl (HTTPException 400 ''Invalid Instagram URL'')"
    using th [where classifier = gaming_classifier and classifier' = failing_classifier
        and ig = example_ig_upstream and env = "example_ig_env 0"
        and u = example_alice and url = "''https://example.com/reel/ABC123''"
        and db = "[]" and err' = "HTTPException 400 ''Invalid Instagram URL''"]
    by simp
  have f: "map genre (fst (snd (add_youtube_playlist failing_classifier
          (example_yt_upstream 200 (Some [example_item])) 0 example_alice
          example_playlist_url []))) = [''other'']"
    by (simp add: add_youtube_playlist_def example_urls example_yt_upstream_def py_get_def
        example_item_def youtube_video_def py_key_def classify_video_genre_def
        classify_try_def failing_classifier_def)
  show ?thesis using a b c d e f by simp
qed

section \<open>Properties of the stale-video sweeper\<close>

lemma find_unwatched_iff:
  "v \<in> set (find_unwatched (now - days 14) db) \<longleftrightarrow>
     v \<in> set db \<and> watchStatus v = ''unwatched''
     \<and> (\<exists>t. savedAt v = Date t \<and> t \<le> now - days 14)"
  by (auto simp: find_unwatched_def lte_date_def split: saved_at.splits)

lemma instagram_video_savedAt:
  "instagram_video c env e data = Inr v \<Longrightarrow>
     savedAt v = IsoString (isoformat env (ig_utcnow env)) \<and> watchStatus v = ''unwatched''"
  by (auto simp: instagram_video_def py_key_def Let_def split: option.splits)

lemma instagram_video_not_found:
  "instagram_video c env e data = Inr v \<Longrightarrow> v \<notin> set (find_unwatched (now - days 14) db)"
  by (auto simp: find_unwatched_iff dest: instagram_video_savedAt)

lemma youtube_video_found:
  assumes "youtube_video c t e item = Inr v" and "v \<in> set db" and "t \<le> now - days 14"
  shows "v \<in> set (find_unwatched (now - days 14) db)"
  using assms
  by (auto simp: find_unwatched_iff youtube_video_def py_key_def Let_def split: option.splits)

lemma example_reel_ingested:
  "add_instagram_video gaming_classifier example_ig_upstream (example_ig_env 0) example_alice
       example_reel_url [] =
     (Inr \<lparr>ig_message = ''Successfully added Instagram video'',
           ig_video_id = ''17895695668004550'', ig_video_title = ''Morning run'',
           ig_video_platform = ''instagram'', ig_video_genre = ''gaming''\<rparr>,
      [example_reel_video], [''ABC123''])"
  by (simp add: add_instagram_video_def example_urls example_ig_env_def truthy_def
      example_ig_upstream_def instagram_video_def py_get_def py_key_def example_alice_def
      classify_video_genre_def classify_try_def gaming_classifier_def genre_mapping_def
      example_isoformat_def str_int_def digits_of_small digit_char_simps
      example_reel_video_def Let_def)

lemma example_playlist_ingested:
  "add_youtube_playlist gaming_classifier (example_yt_upstream 200 (Some [example_item])) 0
       example_alice example_playlist_url [] =
     (Inr \<lparr>yt_message = ''Successfully added 1 videos from playlist'', yt_count = 1,
           yt_videos = [example_playlist_video]\<rparr>,
      [example_playlist_video], [''PL123''])"
  by (simp add: add_youtube_playlist_def example_urls example_yt_upstream_def py_get_def
      example_item_def youtube_video_def py_key_def example_alice_def
      classify_video_genre_def classify_try_def gaming_classifier_def genre_mapping_def
      thumb_url_def py_or_def truthy_def
      str_int_def digits_of_small digit_char_simps example_playlist_video_def)

text \<open>
  Claim C3 does not hold of the code. The Instagram ingester stores \<^verbatim>\<open>savedAt\<close> as the
  string \<^verbatim>\<open>datetime.utcnow().isoformat()\<close>, the YouTube ingester as the \<^verbatim>\<open>datetime\<close>
  itself, which is what \<^verbatim>\<open>class Video\<close> declares. The query of the sweeper compares
  \<^verbatim>\<open>savedAt\<close> with a date, so it never selects a video of the Instagram ingester. Here a
  reel is ingested at time 0 and a playlist video at time 0, both are left unwatched, and
  the sweeper runs 15 days later: the playlist video is passed to the notification, the
  reel is not.
\<close>

theorem sweep_misses_instagram_video:
  "fst (snd (add_instagram_video gaming_classifier example_ig_upstream (example_ig_env 0)
       example_alice example_reel_url [])) = [example_reel_video]
   \<and> watchStatus example_reel_video = ''unwatched''
   \<and> savedAt example_reel_video = IsoString (example_isoformat 0)
   \<and> sweep (days 15) [example_reel_video] = []
   \<and> fst (snd (add_youtube_playlist gaming_classifier
       (example_yt_upstream 200 (Some [example_item])) 0 example_alice example_playlist_url
       [example_reel_video])) = [example_reel_video, example_playlist_video]
   \<and> sweep (days 15) [example_reel_video, example_playlist_video] =
       [send_notification ''alice@example.com'' ''Speedrun'']
   \<and> check_unwatched_videos
        [(days 15, [example_reel_video, example_playlist_video]),
         (days 16, [example_reel_video, example_playlist_video])] =
       [[(''alice@example.com'', ''Speedrun'')], [(''alice@example.com'', ''Speedrun'')]]"
proof -
  have a: "fst (snd (add_instagram_video gaming_classifier example_ig_upstream (example_ig_env 0)
       example_alice example_reel_url [])) = [example_reel_video]"
    by (simp add: example_reel_ingested)
  have b: "watchStatus example_reel_video = ''unwatched''"
    "savedAt example_reel_video = IsoString (example_isoformat 0)"
    by (simp_all add: example_reel_video_def example_isoformat_def str_int_def
        digits_of_small digit_char_simps)
  have c: "sweep t [example_reel_video] = []" for t
    by (simp add: sweep_def find_unwatched_def lte_date_def example_reel_video_def)
  have d: "fst (snd (add_youtube_playlist gaming_classifier
       (example_yt_upstream 200 (Some [example_item])) 0 example_alice example_playlist_url
       [example_reel_video])) = [example_reel_video, example_playlist_video]"
    by (simp add: add_youtube_playlist_def example_urls example_yt_upstream_def py_get_def
      example_item_def youtube_video_def py_key_def example_alice_def
      classify_video_genre_def classify_try_def gaming_classifier_def genre_mapping_def
      thumb_url_def py_or_def truthy_def example_playlist_video_def)
  have e: "sweep (days n) [example_reel_video, example_playlist_video] =
       [(''alice@example.com'', ''Speedrun'')]" if "14 \<le> n" for n
    using that
    by (simp add: sweep_def find_unwatched_def lte_date_def example_reel_video_def
        example_playlist_video_def days_def send_notification_def)
  show ?thesis
    using a b c [of "days 15"] d e [of 15] e [of 16] by (simp add: send_notification_def)
qed

end
